theory Spec2Isabelle
  imports Main "HOL-Library.Char_ord" "HOL-Library.List_Lexorder"
begin

section \<open>The Ramaris Go SDK: request pipeline of \<open>ramaris.go\<close>\<close>

text \<open>
  A shallow embedding of the client in \<open>src/ramaris.go\<close> with the types of
  \<open>types.go\<close> and \<open>errors.go\<close>. Go's \<open>int\<close> is taken as the 64-bit signed
  integer of the usual platforms and modelled by \<open>int\<close>; the only place where its range
  matters is \<open>strconv.Atoi\<close>, whose clamping is written out. What lives outside the
  package (the HTTP transport, the context, the JSON decoder) is a parameter of the model.
\<close>

subsection \<open>Standard-library helpers the code calls\<close>

text \<open>\<open>strconv.Itoa\<close>: the decimal digits of an integer, with a leading minus sign.\<close>

definition digitChar :: "nat \<Rightarrow> char" where
  "digitChar d = ''0123456789'' ! (d mod 10)"

function formatDigits :: "nat \<Rightarrow> string" where
  "formatDigits n =
     (if n < 10 then [digitChar n] else formatDigits (n div 10) @ [digitChar (n mod 10)])"
  by pat_completeness auto
termination
  by (relation "measure id") auto

declare formatDigits.simps [simp del]

definition Itoa :: "int \<Rightarrow> string" where
  "Itoa i = (if i < 0 then CHR ''-'' # formatDigits (nat (- i)) else formatDigits (nat i))"

text \<open>
  \<open>strconv.Atoi\<close> on a 64-bit platform, with the two paths of its source. It returns a
  value and an error. Inputs of 1 to 18 bytes take the fast path: an optional sign, then
  digits accumulated in an \<open>int\<close>; a lone sign or a byte that is not a decimal digit is a
  syntax error with the value 0. Every other input goes through \<open>ParseInt(s, 10, 0)\<close>.
\<close>

datatype NumError = ErrSyntax | ErrRange

definition isDigit :: "char \<Rightarrow> bool" where
  "isDigit ch = (48 \<le> (of_char ch :: nat) \<and> (of_char ch :: nat) \<le> 57)"

definition maxUint64 :: int where
  "maxUint64 = 2 ^ 64 - 1"

text \<open>
  The loop of \<open>ParseUint\<close> for base 10 and 64 bits, \<open>n\<close> being the \<open>uint64\<close> read so
  far. Each byte is first checked to be a digit (a letter is a digit value of 10 or more, so
  a syntax error as well), then the two overflow tests are made, with the wrap-around of
  \<open>uint64\<close> written out. The loop returns at the first byte that fails a test: a range
  error comes with the largest \<open>uint64\<close>, and the bytes after it are never read.
\<close>

fun parseUintLoop :: "int \<Rightarrow> string \<Rightarrow> int \<times> NumError option" where
  "parseUintLoop n [] = (n, None)"
| "parseUintLoop n (c # cs) =
     (if \<not> isDigit c then (0, Some ErrSyntax)
      else if n \<ge> maxUint64 div 10 + 1 then (maxUint64, Some ErrRange)
      else
        (let n10 = (n * 10) mod 2 ^ 64;
             n1 = (n10 + (of_char c - 48)) mod 2 ^ 64
         in if n1 < n10 \<or> n1 > maxUint64 then (maxUint64, Some ErrRange)
            else parseUintLoop n1 cs))"

definition ParseUint :: "string \<Rightarrow> int \<times> NumError option" where
  "ParseUint s = (if s = [] then (0, Some ErrSyntax) else parseUintLoop 0 s)"

text \<open>The conversion \<open>int64(x)\<close>, which wraps.\<close>

definition toInt64 :: "int \<Rightarrow> int" where
  "toInt64 x = (x + 2 ^ 63) mod 2 ^ 64 - 2 ^ 63"

text \<open>
  \<open>ParseInt\<close> for base 10 and 64 bits: the sign is picked off, a syntax error of
  \<open>ParseUint\<close> is passed on with the value 0, and the unsigned value, which is the
  largest \<open>uint64\<close> after a range error, is checked against the bounds of \<open>int64\<close>.
\<close>

definition ParseInt :: "string \<Rightarrow> int \<times> NumError option" where
  "ParseInt s0 =
     (if s0 = [] then (0, Some ErrSyntax)
      else
        (let neg = (hd s0 \<noteq> CHR ''+'' \<and> hd s0 = CHR ''-'');
             s = (if hd s0 = CHR ''+'' then tl s0 else if hd s0 = CHR ''-'' then tl s0 else s0);
             un = fst (ParseUint s);
             err = snd (ParseUint s)
         in if err \<noteq> None \<and> err \<noteq> Some ErrRange then (0, err)
            else if \<not> neg \<and> un \<ge> 2 ^ 63 then (2 ^ 63 - 1, Some ErrRange)
            else if neg \<and> un > 2 ^ 63 then (- (2 ^ 63), Some ErrRange)
            else (if neg then toInt64 (- toInt64 un) else toInt64 un, None)))"

text \<open>
  The digits of the fast path: \<open>ch -= '0'; if ch > 9\<close> on a byte is the test that
  \<open>ch\<close> is not a decimal digit.
\<close>

fun atoiDigits :: "int \<Rightarrow> string \<Rightarrow> int option" where
  "atoiDigits n [] = Some n"
| "atoiDigits n (ch # s) =
     (if \<not> isDigit ch then None else atoiDigits (n * 10 + (of_char ch - 48)) s)"

definition Atoi :: "string \<Rightarrow> int \<times> NumError option" where
  "Atoi s0 =
     (if 0 < length s0 \<and> length s0 < 19 then
        (let signed = (hd s0 = CHR ''-'' \<or> hd s0 = CHR ''+'');
             s = (if signed then tl s0 else s0)
         in if signed \<and> length s < 1 then (0, Some ErrSyntax)
            else
              (case atoiDigits 0 s of
                 None \<Rightarrow> (0, Some ErrSyntax)
               | Some n \<Rightarrow> (if hd s0 = CHR ''-'' then - n else n, None)))
      else ParseInt s0)"

subsection \<open>Types (\<open>types.go\<close>, \<open>errors.go\<close>)\<close>

record ListOptions =
  Page :: int
  PageSize :: int

record RateLimitInfo =
  Limit :: int
  Remaining :: int
  Reset :: int

record Error =
  Code :: string
  Message :: string
  StatusCode :: int

record RateLimitError =
  Code :: string
  Message :: string
  StatusCode :: int
  RetryAfter :: int

text \<open>
  The error envelope \<open>errorResponse\<close>: its anonymous inner struct is \<open>errorDetail\<close>.
  A variable declared by \<open>var errResp errorResponse\<close> starts as the zero value.
\<close>

record errorDetail =
  Code :: string
  Message :: string
  RetryAfter :: int

record errorResponse =
  Error :: errorDetail

definition zeroErrorResponse :: errorResponse where
  "zeroErrorResponse =
     \<lparr>Error = \<lparr>errorDetail.Code = [], errorDetail.Message = [], errorDetail.RetryAfter = 0\<rparr>\<rparr>"

record 'a singleResponse =
  Data :: 'a

text \<open>
  Go error values. \<open>Foreign\<close> stands for an error made outside the package (by
  \<open>net/http\<close>, \<open>net/url\<close> or \<open>encoding/json\<close>), \<open>ContextErr\<close> for what
  \<open>ctx.Err()\<close> returns, \<open>Errorf\<close> for \<open>fmt.Errorf\<close> without \<open>%w\<close> and
  \<open>ErrorfW prefix cause\<close> for \<open>fmt.Errorf(prefix + "%w", cause)\<close>, which wraps
  \<open>cause\<close> so that \<open>Unwrap\<close> gives it back.
\<close>

datatype ctxError = Canceled | DeadlineExceeded

datatype goError =
    Foreign string
  | ContextErr ctxError
  | Errorf string
  | ErrorfW string goError
  | ApiError Error
  | RateLimitErr RateLimitError

fun Unwrap :: "goError \<Rightarrow> goError option" where
  "Unwrap (ErrorfW prefix cause) = Some cause"
| "Unwrap e = None"

subsection \<open>HTTP messages and the outside world\<close>

text \<open>
  \<open>http.Header\<close> is a map from header names to value lists; a missing name reads as the
  empty list. Names are compared as \<open>net/http\<close> compares them, so the model looks a
  header up under the name written in the source.
\<close>

type_synonym header = "string \<Rightarrow> string list"

definition Get :: "header \<Rightarrow> string \<Rightarrow> string" where
  "Get h key = (case h key of [] \<Rightarrow> [] | v # vs \<Rightarrow> v)"

record request =
  Method :: string
  URL :: string
  ReqHeader :: "(string \<times> string) list"

record response =
  StatusCode :: int
  Header :: header
  Body :: string

datatype roundTrip = Failed goError | Responded response

text \<open>
  The client. \<open>httpClient c req i\<close> is what \<open>c.httpClient.Do(req)\<close> returns at the
  \<open>i\<close>-th transport call of the current operation (counted from 0). The field
  \<open>rateLimit\<close> is a pointer, nil or the address of a \<open>RateLimitInfo\<close> in the store.
\<close>

type_synonym addr = nat

record Client =
  apiKey :: string
  baseURL :: string
  httpClient :: "request \<Rightarrow> nat \<Rightarrow> roundTrip"
  rateLimit :: "addr option"

text \<open>
  The store of allocated \<open>RateLimitInfo\<close> values: \<open>objs\<close> gives the contents of every
  address, \<open>fresh\<close> is the next address to hand out.
\<close>

record store =
  objs :: "addr \<Rightarrow> RateLimitInfo"
  fresh :: addr

definition new :: "RateLimitInfo \<Rightarrow> store \<Rightarrow> addr \<times> store" where
  "new v s = (fresh s, s\<lparr>objs := (objs s)(fresh s := v), fresh := Suc (fresh s)\<rparr>)"

text \<open>
  What one call of an operation meets outside the package: whether
  \<open>http.NewRequestWithContext\<close> rejects the URL, whether the context is done before the
  timer of the wait after attempt \<open>i\<close> fires and which error it then holds, and the
  decoder \<open>json.Unmarshal(body, &errResp)\<close> as a function updating the target struct.
\<close>

record env =
  newRequestErr :: "string \<Rightarrow> goError option"
  ctxDone :: "nat \<Rightarrow> bool"
  ctxErr :: ctxError
  jsonUnmarshal :: "string \<Rightarrow> errorResponse \<Rightarrow> errorResponse"

subsection \<open>Construction and the rate-limit snapshot\<close>

definition defaultBaseURL :: string where
  "defaultBaseURL = ''https://www.ramaris.app/api/v1''"

definition WithBaseURL :: "string \<Rightarrow> Client \<Rightarrow> Client" where
  "WithBaseURL u = (\<lambda>c. c\<lparr>baseURL := u\<rparr>)"

definition WithHTTPClient :: "(request \<Rightarrow> nat \<Rightarrow> roundTrip) \<Rightarrow> Client \<Rightarrow> Client" where
  "WithHTTPClient hc = (\<lambda>c. c\<lparr>httpClient := hc\<rparr>)"

text \<open>
  \<open>NewClient\<close>; the default \<open>http.Client\<close> with its 30 second timeout is the
  parameter \<open>dflt\<close>.
\<close>

definition NewClient ::
  "(request \<Rightarrow> nat \<Rightarrow> roundTrip) \<Rightarrow> string \<Rightarrow> (Client \<Rightarrow> Client) list \<Rightarrow> Client" where
  "NewClient dflt key opts =
     fold (\<lambda>opt c. opt c) opts
       \<lparr>apiKey = key, baseURL = defaultBaseURL, httpClient = dflt, rateLimit = None\<rparr>"

definition emptyStore :: store where
  "emptyStore = \<lparr>objs = (\<lambda>a. \<lparr>Limit = 0, Remaining = 0, Reset = 0\<rparr>), fresh = 0\<rparr>"

text \<open>\<open>RateLimit\<close>: nil, or the address of a fresh copy of the current snapshot.\<close>

definition RateLimit :: "Client \<Rightarrow> store \<Rightarrow> addr option \<times> store" where
  "RateLimit c s =
     (case rateLimit c of
        None \<Rightarrow> (None, s)
      | Some p \<Rightarrow> (let cp = objs s p; (q, s') = new cp s in (Some q, s')))"

definition updateRateLimit :: "header \<Rightarrow> Client \<Rightarrow> store \<Rightarrow> Client \<times> store" where
  "updateRateLimit h c s =
     (let limit = Get h ''X-RateLimit-Limit'';
          remaining = Get h ''X-RateLimit-Remaining'';
          reset = Get h ''X-RateLimit-Reset''
      in if limit = [] \<or> remaining = [] \<or> reset = [] then (c, s)
         else let l = fst (Atoi limit);
                  r = fst (Atoi remaining);
                  rs = fst (Atoi reset);
                  (p, s') = new \<lparr>Limit = l, Remaining = r, Reset = rs\<rparr> s
              in (c\<lparr>rateLimit := Some p\<rparr>, s'))"

text \<open>What a caller reads through the pointer that \<open>RateLimit\<close> returns.\<close>

definition snapshot :: "Client \<Rightarrow> store \<Rightarrow> RateLimitInfo option" where
  "snapshot c s = (case RateLimit c s of (None, s') \<Rightarrow> None | (Some q, s') \<Rightarrow> Some (objs s' q))"

subsection \<open>Building the URL\<close>

text \<open>
  \<open>url.Values\<close> is a map from keys to value lists, kept here as an association list
  with one entry per key. \<open>Set\<close> replaces the values of a key. \<open>Encode\<close> walks the
  keys in sorted order and writes \<open>key=value\<close> pairs, both sides escaped by
  \<open>url.QueryEscape\<close>, separated by \<open>&\<close>.
\<close>

type_synonym Values = "(string \<times> string list) list"

definition Set :: "string \<Rightarrow> string \<Rightarrow> Values \<Rightarrow> Values" where
  "Set key v params = (key, [v]) # filter (\<lambda>kv. fst kv \<noteq> key) params"

definition shouldEscape :: "char \<Rightarrow> bool" where
  "shouldEscape ch =
     (let n = (of_char ch :: nat)
      in \<not> ((97 \<le> n \<and> n \<le> 122) \<or> (65 \<le> n \<and> n \<le> 90) \<or> (48 \<le> n \<and> n \<le> 57)
            \<or> ch \<in> set ''-_.~''))"

definition upperhex :: "nat \<Rightarrow> char" where
  "upperhex d = ''0123456789ABCDEF'' ! (d mod 16)"

definition escapeByte :: "char \<Rightarrow> string" where
  "escapeByte ch =
     (if ch = CHR '' '' then ''+''
      else if shouldEscape ch
        then [CHR ''%'', upperhex ((of_char ch :: nat) div 16), upperhex ((of_char ch :: nat) mod 16)]
      else [ch])"

definition QueryEscape :: "string \<Rightarrow> string" where
  "QueryEscape s = concat (map escapeByte s)"

fun joinAmp :: "string list \<Rightarrow> string" where
  "joinAmp [] = []"
| "joinAmp [x] = x"
| "joinAmp (x # y # ys) = x @ ''&'' @ joinAmp (y # ys)"

definition valuesOf :: "Values \<Rightarrow> string \<Rightarrow> string list" where
  "valuesOf params k = (case map_of params k of None \<Rightarrow> [] | Some vs \<Rightarrow> vs)"

definition Encode :: "Values \<Rightarrow> string" where
  "Encode params =
     joinAmp (concat (map (\<lambda>k. map (\<lambda>v. QueryEscape k @ ''='' @ QueryEscape v) (valuesOf params k))
                          (sort (map fst params))))"

definition buildURL :: "Client \<Rightarrow> string \<Rightarrow> ListOptions option \<Rightarrow> string" where
  "buildURL c path opts =
     (let u = baseURL c @ path
      in case opts of
           None \<Rightarrow> u
         | Some opt \<Rightarrow>
             (let params0 = ([] :: Values);
                  params1 = (if Page opt > 0 then Set ''page'' (Itoa (Page opt)) params0 else params0);
                  params2 = (if PageSize opt > 0 then Set ''pageSize'' (Itoa (PageSize opt)) params1
                             else params1)
              in if length params2 = 0 then u else u @ ''?'' @ Encode params2))"

subsection \<open>The request loop\<close>

definition codeOrDefault :: "string \<Rightarrow> string \<Rightarrow> string" where
  "codeOrDefault code def = (if code \<noteq> [] then code else def)"

definition msgOrDefault :: "string \<Rightarrow> string \<Rightarrow> string" where
  "msgOrDefault msg def = (if msg \<noteq> [] then msg else def)"

definition Millisecond :: int where
  "Millisecond = 1000000"

definition maxRetries :: nat where
  "maxRetries = 3"

text \<open>
  What an observer sees of one call: \<open>Do\<close> each time the transport is invoked,
  \<open>After d\<close> each time the loop asks for a timer of \<open>d\<close> nanoseconds
  (\<open>time.After(backoff)\<close>).
\<close>

datatype event = Do | After int

definition newRequest :: "Client \<Rightarrow> string \<Rightarrow> request" where
  "newRequest c reqURL =
     \<lparr>Method = ''GET'', URL = reqURL,
      ReqHeader = [(''Authorization'', ''Bearer '' @ apiKey c), (''Accept'', ''application/json'')]\<rparr>"

text \<open>
  The loop \<open>for i := 0; i < maxRetries; i++\<close> of \<open>doRequest\<close>, with the loop
  variables \<open>i\<close> and \<open>backoff\<close>, the client and the store it mutates, and the events
  so far. The result is the pair \<open>(*http.Response, error)\<close> as a sum, with the client,
  the store and the events at the return.
\<close>

function doRequestLoop ::
  "env \<Rightarrow> string \<Rightarrow> nat \<Rightarrow> int \<Rightarrow> Client \<Rightarrow> store \<Rightarrow> event list
     \<Rightarrow> (goError + response) \<times> Client \<times> store \<times> event list" where
  "doRequestLoop e reqURL i backoff c s tr =
     (if i < maxRetries then
        (case newRequestErr e reqURL of
           Some err \<Rightarrow> (Inl (ErrorfW ''ramaris: failed to create request: '' err), c, s, tr)
         | None \<Rightarrow>
            (case httpClient c (newRequest c reqURL) i of
               Failed err \<Rightarrow> (Inl (ErrorfW ''ramaris: request failed: '' err), c, s, tr @ [Do])
             | Responded resp \<Rightarrow>
                (let (c1, s1) = updateRateLimit (Header resp) c s;
                     tr1 = tr @ [Do]
                 in if StatusCode resp \<ge> 200 \<and> StatusCode resp < 300 then (Inr resp, c1, s1, tr1)
                    else
                      (let body = Body resp;
                           errResp = jsonUnmarshal e body zeroErrorResponse
                       in if StatusCode resp = 429 then
                            (Inl (RateLimitErr
                               \<lparr>RateLimitError.Code =
                                   codeOrDefault (errorDetail.Code (Error errResp)) ''RATE_LIMITED'',
                                RateLimitError.Message =
                                   msgOrDefault (errorDetail.Message (Error errResp)) ''rate limit exceeded'',
                                RateLimitError.StatusCode = 429,
                                RateLimitError.RetryAfter = errorDetail.RetryAfter (Error errResp)\<rparr>),
                             c1, s1, tr1)
                          else if StatusCode resp \<ge> 500 \<and> i < maxRetries - 1 then
                            (if ctxDone e i then
                               (Inl (ContextErr (ctxErr e)), c1, s1, tr1 @ [After backoff])
                             else
                               doRequestLoop e reqURL (i + 1) (backoff * 2) c1 s1 (tr1 @ [After backoff]))
                          else
                            (Inl (ApiError
                               \<lparr>Error.Code =
                                   codeOrDefault (errorDetail.Code (Error errResp)) ''UNKNOWN_ERROR'',
                                Error.Message =
                                   msgOrDefault (errorDetail.Message (Error errResp))
                                     (''HTTP '' @ Itoa (StatusCode resp)),
                                Error.StatusCode = StatusCode resp\<rparr>),
                             c1, s1, tr1)))))
      else (Inl (Errorf ''ramaris: max retries exceeded''), c, s, tr))"
  by pat_completeness auto
termination
  by (relation "measure (\<lambda>(e, reqURL, i, backoff, c, s, tr). maxRetries - i)") auto

declare doRequestLoop.simps [simp del]

definition doRequest ::
  "env \<Rightarrow> string \<Rightarrow> ListOptions option \<Rightarrow> Client \<Rightarrow> store
     \<Rightarrow> (goError + response) \<times> Client \<times> store \<times> event list" where
  "doRequest e path opts c s =
     (let reqURL = buildURL c path opts;
          backoff = 500 * Millisecond
      in doRequestLoop e reqURL 0 backoff c s [])"

subsection \<open>Endpoint methods\<close>

text \<open>
  Every endpoint calls \<open>doRequest\<close> and decodes the body of the response it gets. The
  decoder \<open>json.NewDecoder(resp.Body).Decode\<close> for the endpoint's result type is the
  parameter \<open>dec\<close>; the result types themselves are plain data and stay type variables.
  The single-resource endpoints decode a \<open>singleResponse\<close> and return its \<open>Data\<close>.
\<close>

definition Health ::
  "env \<Rightarrow> (string \<Rightarrow> goError + 'a) \<Rightarrow> Client \<Rightarrow> store
     \<Rightarrow> (goError + 'a) \<times> Client \<times> store \<times> event list" where
  "Health e dec c s =
     (case doRequest e ''/health'' None c s of
        (Inl err, c', s', tr) \<Rightarrow> (Inl err, c', s', tr)
      | (Inr resp, c', s', tr) \<Rightarrow>
          (case dec (Body resp) of
             Inl err \<Rightarrow> (Inl (ErrorfW ''ramaris: failed to decode response: '' err), c', s', tr)
           | Inr result \<Rightarrow> (Inr result, c', s', tr)))"

definition ListStrategies ::
  "env \<Rightarrow> (string \<Rightarrow> goError + 'a) \<Rightarrow> ListOptions option \<Rightarrow> Client \<Rightarrow> store
     \<Rightarrow> (goError + 'a) \<times> Client \<times> store \<times> event list" where
  "ListStrategies e dec opts c s =
     (case doRequest e ''/strategies'' opts c s of
        (Inl err, c', s', tr) \<Rightarrow> (Inl err, c', s', tr)
      | (Inr resp, c', s', tr) \<Rightarrow>
          (case dec (Body resp) of
             Inl err \<Rightarrow> (Inl (ErrorfW ''ramaris: failed to decode response: '' err), c', s', tr)
           | Inr result \<Rightarrow> (Inr result, c', s', tr)))"

definition GetStrategy ::
  "env \<Rightarrow> (string \<Rightarrow> goError + 'a singleResponse) \<Rightarrow> string \<Rightarrow> Client \<Rightarrow> store
     \<Rightarrow> (goError + 'a) \<times> Client \<times> store \<times> event list" where
  "GetStrategy e dec shareID c s =
     (case doRequest e (''/strategies/'' @ shareID) None c s of
        (Inl err, c', s', tr) \<Rightarrow> (Inl err, c', s', tr)
      | (Inr resp, c', s', tr) \<Rightarrow>
          (case dec (Body resp) of
             Inl err \<Rightarrow> (Inl (ErrorfW ''ramaris: failed to decode response: '' err), c', s', tr)
           | Inr envelope \<Rightarrow> (Inr (Data envelope), c', s', tr)))"

definition ListWatchlist ::
  "env \<Rightarrow> (string \<Rightarrow> goError + 'a) \<Rightarrow> ListOptions option \<Rightarrow> Client \<Rightarrow> store
     \<Rightarrow> (goError + 'a) \<times> Client \<times> store \<times> event list" where
  "ListWatchlist e dec opts c s =
     (case doRequest e ''/me/strategies/watchlist'' opts c s of
        (Inl err, c', s', tr) \<Rightarrow> (Inl err, c', s', tr)
      | (Inr resp, c', s', tr) \<Rightarrow>
          (case dec (Body resp) of
             Inl err \<Rightarrow> (Inl (ErrorfW ''ramaris: failed to decode response: '' err), c', s', tr)
           | Inr result \<Rightarrow> (Inr result, c', s', tr)))"

definition ListWallets ::
  "env \<Rightarrow> (string \<Rightarrow> goError + 'a) \<Rightarrow> ListOptions option \<Rightarrow> Client \<Rightarrow> store
     \<Rightarrow> (goError + 'a) \<times> Client \<times> store \<times> event list" where
  "ListWallets e dec opts c s =
     (case doRequest e ''/wallets'' opts c s of
        (Inl err, c', s', tr) \<Rightarrow> (Inl err, c', s', tr)
      | (Inr resp, c', s', tr) \<Rightarrow>
          (case dec (Body resp) of
             Inl err \<Rightarrow> (Inl (ErrorfW ''ramaris: failed to decode response: '' err), c', s', tr)
           | Inr result \<Rightarrow> (Inr result, c', s', tr)))"

definition GetWallet ::
  "env \<Rightarrow> (string \<Rightarrow> goError + 'a singleResponse) \<Rightarrow> int \<Rightarrow> Client \<Rightarrow> store
     \<Rightarrow> (goError + 'a) \<times> Client \<times> store \<times> event list" where
  "GetWallet e dec wid c s =
     (case doRequest e (''/wallets/'' @ Itoa wid) None c s of
        (Inl err, c', s', tr) \<Rightarrow> (Inl err, c', s', tr)
      | (Inr resp, c', s', tr) \<Rightarrow>
          (case dec (Body resp) of
             Inl err \<Rightarrow> (Inl (ErrorfW ''ramaris: failed to decode response: '' err), c', s', tr)
           | Inr envelope \<Rightarrow> (Inr (Data envelope), c', s', tr)))"

definition GetProfile ::
  "env \<Rightarrow> (string \<Rightarrow> goError + 'a singleResponse) \<Rightarrow> Client \<Rightarrow> store
     \<Rightarrow> (goError + 'a) \<times> Client \<times> store \<times> event list" where
  "GetProfile e dec c s =
     (case doRequest e ''/me/profile'' None c s of
        (Inl err, c', s', tr) \<Rightarrow> (Inl err, c', s', tr)
      | (Inr resp, c', s', tr) \<Rightarrow>
          (case dec (Body resp) of
             Inl err \<Rightarrow> (Inl (ErrorfW ''ramaris: failed to decode response: '' err), c', s', tr)
           | Inr envelope \<Rightarrow> (Inr (Data envelope), c', s', tr)))"

definition GetSubscription ::
  "env \<Rightarrow> (string \<Rightarrow> goError + 'a singleResponse) \<Rightarrow> Client \<Rightarrow> store
     \<Rightarrow> (goError + 'a) \<times> Client \<times> store \<times> event list" where
  "GetSubscription e dec c s =
     (case doRequest e ''/me/subscription'' None c s of
        (Inl err, c', s', tr) \<Rightarrow> (Inl err, c', s', tr)
      | (Inr resp, c', s', tr) \<Rightarrow>
          (case dec (Body resp) of
             Inl err \<Rightarrow> (Inl (ErrorfW ''ramaris: failed to decode response: '' err), c', s', tr)
           | Inr envelope \<Rightarrow> (Inr (Data envelope), c', s', tr)))"

subsection \<open>Vocabulary of the statements\<close>

text \<open>The transport's answer at the \<open>k\<close>-th call of an operation on \<open>path\<close> and \<open>opts\<close>.\<close>

definition transportAt :: "Client \<Rightarrow> string \<Rightarrow> ListOptions option \<Rightarrow> nat \<Rightarrow> roundTrip" where
  "transportAt c path opts k = httpClient c (newRequest c (buildURL c path opts)) k"

text \<open>
  \<open>retried e c path opts k\<close>: each of the first \<open>k\<close> transport calls is answered by a
  response with status 500 or more, and the context is not done during the wait after it.
\<close>

primrec retried :: "env \<Rightarrow> Client \<Rightarrow> string \<Rightarrow> ListOptions option \<Rightarrow> nat \<Rightarrow> bool" where
  "retried e c path opts 0 = True"
| "retried e c path opts (Suc k) =
     (retried e c path opts k \<and>
      (case transportAt c path opts k of
         Failed err \<Rightarrow> False
       | Responded r \<Rightarrow> StatusCode r \<ge> 500 \<and> \<not> ctxDone e k))"

text \<open>The client and store after the rate-limit updates of the first \<open>k\<close> responses.\<close>

primrec afterRetries ::
  "Client \<Rightarrow> string \<Rightarrow> ListOptions option \<Rightarrow> store \<Rightarrow> nat \<Rightarrow> Client \<times> store" where
  "afterRetries c path opts s 0 = (c, s)"
| "afterRetries c path opts s (Suc k) =
     (case afterRetries c path opts s k of
        (c', s') \<Rightarrow>
          (case transportAt c path opts k of
             Failed err \<Rightarrow> (c', s')
           | Responded r \<Rightarrow> updateRateLimit (Header r) c' s'))"

text \<open>The events of \<open>k\<close> retried attempts: a transport call, then a wait that doubles.\<close>

primrec retryTrace :: "int \<Rightarrow> nat \<Rightarrow> event list" where
  "retryTrace b 0 = []"
| "retryTrace b (Suc k) = retryTrace b k @ [Do, After (b * 2 ^ k)]"

definition transportCalls :: "event list \<Rightarrow> nat" where
  "transportCalls tr = length (filter (\<lambda>ev. ev = Do) tr)"


definition carriesAll :: "header \<Rightarrow> bool" where
  "carriesAll h =
     (Get h ''X-RateLimit-Limit'' \<noteq> [] \<and> Get h ''X-RateLimit-Remaining'' \<noteq> []
      \<and> Get h ''X-RateLimit-Reset'' \<noteq> [])"

text \<open>The waits a trace asks for, in order.\<close>

fun delays :: "event list \<Rightarrow> int list" where
  "delays [] = []"
| "delays (Do # tr) = delays tr"
| "delays (After d # tr) = d # delays tr"

text \<open>
  The kinds of error a caller can tell apart: by type for \<open>*Error\<close> and
  \<open>*RateLimitError\<close> (\<open>errors.As\<close>), by the message prefix for the two wrapped errors.
\<close>

fun isApiError :: "goError \<Rightarrow> bool" where
  "isApiError (ApiError x) = True"
| "isApiError err = False"

fun isRateLimitError :: "goError \<Rightarrow> bool" where
  "isRateLimitError (RateLimitErr x) = True"
| "isRateLimitError err = False"

fun isTransportError :: "goError \<Rightarrow> bool" where
  "isTransportError (ErrorfW prefix cause) = (prefix = ''ramaris: request failed: '')"
| "isTransportError err = False"

fun isDecodingError :: "goError \<Rightarrow> bool" where
  "isDecodingError (ErrorfW prefix cause) = (prefix = ''ramaris: failed to decode response: '')"
| "isDecodingError err = False"

text \<open>Concrete inputs for the examples: a header set with the three rate-limit headers.\<close>

definition headersOf :: "string \<Rightarrow> string \<Rightarrow> string \<Rightarrow> header" where
  "headersOf l r rs =
     (\<lambda>k. if k = ''X-RateLimit-Limit'' then [l]
          else if k = ''X-RateLimit-Remaining'' then [r]
          else if k = ''X-RateLimit-Reset'' then [rs]
          else [])"

definition noHeaders :: header where
  "noHeaders = (\<lambda>k. [])"

text \<open>A transport that never connects, and a new client over it.\<close>

definition deadTransport :: "request \<Rightarrow> nat \<Rightarrow> roundTrip" where
  "deadTransport req i = Failed (Foreign ''connection refused'')"

definition newClient :: Client where
  "newClient = NewClient deadTransport ''rms_key'' []"





text \<open>
  A transport that answers from a script, a client over it, and the bodies the test
  servers of \<open>ramaris_test.go\<close> send.
\<close>

definition scripted :: "roundTrip list \<Rightarrow> request \<Rightarrow> nat \<Rightarrow> roundTrip" where
  "scripted script req i =
     (if i < length script then script ! i else Failed (Foreign ''no more responses''))"

definition reply :: "int \<Rightarrow> string \<Rightarrow> roundTrip" where
  "reply status body = Responded \<lparr>StatusCode = status, Header = noHeaders, Body = body\<rparr>"

definition clientOver :: "roundTrip list \<Rightarrow> Client" where
  "clientOver script =
     NewClient deadTransport ''rms_key''
       [WithBaseURL ''http://127.0.0.1:8080'', WithHTTPClient (scripted script)]"

definition notFoundBody :: string where
  \<open>notFoundBody = ''{"error":{"code":"NOT_FOUND","message":"strategy not found"}}''\<close>

definition rateLimitedBody :: string where
  \<open>rateLimitedBody =
     ''{"error":{"code":"RATE_LIMITED","message":"too many requests","retryAfter":60}}''\<close>

definition badGatewayBody :: string where
  \<open>badGatewayBody = ''{"error":{"code":"SERVER_ERROR","message":"bad gateway"}}''\<close>

definition okBody :: string where
  \<open>okBody = ''{"status":"ok"}''\<close>

text \<open>
  A stand-in for \<open>json.Unmarshal\<close> that knows the three envelopes above and leaves the
  target untouched on every other body, as the decoder does on input that is not JSON.
\<close>

definition sampleUnmarshal :: "string \<Rightarrow> errorResponse \<Rightarrow> errorResponse" where
  "sampleUnmarshal body target =
     (if body = notFoundBody then
        target\<lparr>Error := \<lparr>errorDetail.Code = ''NOT_FOUND'',
                          errorDetail.Message = ''strategy not found'',
                          errorDetail.RetryAfter = errorDetail.RetryAfter (Error target)\<rparr>\<rparr>
      else if body = rateLimitedBody then
        target\<lparr>Error := \<lparr>errorDetail.Code = ''RATE_LIMITED'',
                          errorDetail.Message = ''too many requests'',
                          errorDetail.RetryAfter = 60\<rparr>\<rparr>
      else if body = badGatewayBody then
        target\<lparr>Error := \<lparr>errorDetail.Code = ''SERVER_ERROR'',
                          errorDetail.Message = ''bad gateway'',
                          errorDetail.RetryAfter = errorDetail.RetryAfter (Error target)\<rparr>\<rparr>
      else target)"

text \<open>An environment whose context is never done, and one whose context is cancelled.\<close>

definition calm :: env where
  "calm = \<lparr>newRequestErr = (\<lambda>u. None), ctxDone = (\<lambda>i. False), ctxErr = Canceled,
           jsonUnmarshal = sampleUnmarshal\<rparr>"

definition cancelled :: env where
  "cancelled = \<lparr>newRequestErr = (\<lambda>u. None), ctxDone = (\<lambda>i. True), ctxErr = Canceled,
                jsonUnmarshal = sampleUnmarshal\<rparr>"

text \<open>Scripts: two bad gateways and then a success, and three bad gateways.\<close>

definition flaky :: "roundTrip list" where
  "flaky = [reply 502 badGatewayBody, reply 502 badGatewayBody, reply 200 okBody]"

definition broken :: "roundTrip list" where
  "broken = [reply 502 badGatewayBody, reply 502 badGatewayBody, reply 502 badGatewayBody]"

text \<open>A 200 response whose body is not JSON, and decoders that know only \<open>okBody\<close>.\<close>

definition garbled :: "roundTrip list" where
  "garbled = [reply 200 ''<html>maintenance</html>'']"

definition sampleDecode :: "string \<Rightarrow> goError + string" where
  "sampleDecode body =
     (if body = okBody then Inr ''ok'' else Inl (Foreign ''invalid character in response''))"

definition sampleDecodeSingle :: "string \<Rightarrow> goError + string singleResponse" where
  "sampleDecodeSingle body =
     (if body = okBody then Inr \<lparr>Data = ''ok''\<rparr>
      else Inl (Foreign ''invalid character in response''))"

text \<open>More scripts: a rate limit, a missing resource, an outage, a 304, a timeout.\<close>

definition limited :: "roundTrip list" where
  "limited = [reply 429 rateLimitedBody]"

definition limitedBare :: "roundTrip list" where
  "limitedBare = [reply 429 ''<html>too many</html>'']"

definition missing :: "roundTrip list" where
  "missing = [reply 404 notFoundBody]"

definition outage :: "roundTrip list" where
  "outage = [reply 503 [], reply 503 [], reply 503 []]"

definition notModified :: "roundTrip list" where
  "notModified = [reply 304 []]"

definition timedOut :: "roundTrip list" where
  "timedOut = [reply 502 badGatewayBody, Failed (ContextErr DeadlineExceeded)]"

section \<open>Properties\<close>

text \<open>The definitions unfolded when an example is evaluated.\<close>

lemmas Atoi_defs =
  Atoi_def ParseInt_def ParseUint_def toInt64_def maxUint64_def isDigit_def

lemmas example_defs =
  calm_def clientOver_def NewClient_def WithBaseURL_def WithHTTPClient_def scripted_def reply_def
  transportAt_def newRequest_def noHeaders_def updateRateLimit_def Get_def

subsection \<open>The rate-limit snapshot\<close>

lemma updateRateLimit_missing:
  "\<not> carriesAll h \<Longrightarrow> updateRateLimit h c s = (c, s)"
  by (auto simp add: updateRateLimit_def carriesAll_def Let_def)

lemma updateRateLimit_carries:
  "carriesAll h \<Longrightarrow>
   updateRateLimit h c s =
     (c\<lparr>rateLimit := Some (fresh s)\<rparr>,
      s\<lparr>objs := (objs s)(fresh s :=
            \<lparr>Limit = fst (Atoi (Get h ''X-RateLimit-Limit'')),
             Remaining = fst (Atoi (Get h ''X-RateLimit-Remaining'')),
             Reset = fst (Atoi (Get h ''X-RateLimit-Reset''))\<rparr>),
        fresh := Suc (fresh s)\<rparr>)"
  by (simp add: updateRateLimit_def carriesAll_def Let_def new_def)

lemma snapshot_read: "snapshot c s = map_option (objs s) (rateLimit c)"
  by (simp add: snapshot_def RateLimit_def new_def Let_def split: option.splits)

lemma Atoi_ok_nonempty: "snd (Atoi x) = None \<Longrightarrow> x \<noteq> []"
  by (auto simp add: Atoi_def ParseInt_def)

text \<open>
  C2, as amended. When the three headers all parse as integers, the snapshot read after
  \<open>updateRateLimit\<close> is exactly that triple. When one of them is missing or empty,
  \<open>updateRateLimit\<close> changes neither the client nor the store, so the snapshot is the
  one from before. When the three are non-empty the snapshot is replaced in every case:
  the errors of \<open>strconv.Atoi\<close> are dropped, and a header that does not parse
  contributes the value \<open>Atoi\<close> returns beside its error.
\<close>

theorem updateRateLimit_snapshot:
  "(Atoi (Get h ''X-RateLimit-Limit'') = (l, None) \<and>
    Atoi (Get h ''X-RateLimit-Remaining'') = (r, None) \<and>
    Atoi (Get h ''X-RateLimit-Reset'') = (rs, None)
    \<longrightarrow> case_prod snapshot (updateRateLimit h c s)
          = Some \<lparr>Limit = l, Remaining = r, Reset = rs\<rparr>)
   \<and> (\<not> carriesAll h \<longrightarrow> updateRateLimit h c s = (c, s))
   \<and> (carriesAll h \<longrightarrow>
        case_prod snapshot (updateRateLimit h c s) =
          Some \<lparr>Limit = fst (Atoi (Get h ''X-RateLimit-Limit'')),
                Remaining = fst (Atoi (Get h ''X-RateLimit-Remaining'')),
                Reset = fst (Atoi (Get h ''X-RateLimit-Reset''))\<rparr>)"
proof (intro conjI impI)
  assume ok: "Atoi (Get h ''X-RateLimit-Limit'') = (l, None) \<and>
    Atoi (Get h ''X-RateLimit-Remaining'') = (r, None) \<and>
    Atoi (Get h ''X-RateLimit-Reset'') = (rs, None)"
  then have "carriesAll h"
    using Atoi_ok_nonempty [of "Get h ''X-RateLimit-Limit''"]
      Atoi_ok_nonempty [of "Get h ''X-RateLimit-Remaining''"]
      Atoi_ok_nonempty [of "Get h ''X-RateLimit-Reset''"]
    by (simp add: carriesAll_def)
  with ok show "case_prod snapshot (updateRateLimit h c s)
      = Some \<lparr>Limit = l, Remaining = r, Reset = rs\<rparr>"
    by (simp add: updateRateLimit_carries snapshot_read)
next
  assume "\<not> carriesAll h"
  then show "updateRateLimit h c s = (c, s)" by (rule updateRateLimit_missing)
next
  assume "carriesAll h"
  then show "case_prod snapshot (updateRateLimit h c s) =
          Some \<lparr>Limit = fst (Atoi (Get h ''X-RateLimit-Limit'')),
                Remaining = fst (Atoi (Get h ''X-RateLimit-Remaining'')),
                Reset = fst (Atoi (Get h ''X-RateLimit-Reset''))\<rparr>"
    by (simp add: updateRateLimit_carries snapshot_read)
qed

theorem updateRateLimit_snapshot_witness:
  "case_prod snapshot (updateRateLimit (headersOf ''100'' ''99'' ''1700000000'') newClient emptyStore)
     = Some \<lparr>Limit = 100, Remaining = 99, Reset = 1700000000\<rparr>
   \<and> updateRateLimit (headersOf ''100'' [] ''1700000000'') newClient emptyStore
     = (newClient, emptyStore)
   \<and> updateRateLimit noHeaders newClient emptyStore = (newClient, emptyStore)
   \<and> case_prod snapshot
        (updateRateLimit (headersOf ''1e3'' ''-7'' ''99999999999999999999'') newClient emptyStore)
     = Some \<lparr>Limit = 0, Remaining = - 7, Reset = 9223372036854775807\<rparr>
   \<and> case_prod snapshot
        (updateRateLimit (headersOf ''99999999999999999999x'' ''+12'' ''-99999999999999999999x'')
           newClient emptyStore)
     = Some \<lparr>Limit = 9223372036854775807, Remaining = 12, Reset = - 9223372036854775808\<rparr>"
  using updateRateLimit_snapshot
      [of "headersOf ''100'' ''99'' ''1700000000''" 100 99 1700000000 newClient emptyStore]
    updateRateLimit_snapshot [of "headersOf ''100'' [] ''1700000000''" 0 0 0 newClient emptyStore]
    updateRateLimit_snapshot [of noHeaders 0 0 0 newClient emptyStore]
    updateRateLimit_snapshot
      [of "headersOf ''1e3'' ''-7'' ''99999999999999999999''" 0 0 0 newClient emptyStore]
    updateRateLimit_snapshot
      [of "headersOf ''99999999999999999999x'' ''+12'' ''-99999999999999999999x''" 0 0 0
        newClient emptyStore]
  by (simp add: headersOf_def noHeaders_def Get_def carriesAll_def Atoi_defs)

text \<open>
  C2 as stated fails: a response whose \<open>X-RateLimit-Limit\<close> is \<open>abc\<close> does not parse,
  yet the snapshot of a new client changes from nil to a value with limit 0.
\<close>

theorem updateRateLimit_unparsable_counterexample:
  "snd (Atoi (Get (headersOf ''abc'' ''99'' ''1700000000'') ''X-RateLimit-Limit'')) = Some ErrSyntax
   \<and> snapshot newClient emptyStore = None
   \<and> case_prod snapshot (updateRateLimit (headersOf ''abc'' ''99'' ''1700000000'') newClient emptyStore)
      = Some \<lparr>Limit = 0, Remaining = 99, Reset = 1700000000\<rparr>"
  by (simp add: headersOf_def Get_def Atoi_defs newClient_def NewClient_def emptyStore_def
      snapshot_def RateLimit_def updateRateLimit_def new_def)




subsection \<open>The loop of \<open>doRequest\<close>\<close>



lemma doRequestLoop_retry:
  assumes "i < maxRetries - 1" "newRequestErr e u = None"
    "httpClient c (newRequest c u) i = Responded resp"
    "StatusCode resp \<ge> 500" "\<not> ctxDone e i"
    "updateRateLimit (Header resp) c s = (c1, s1)"
  shows "doRequestLoop e u i b c s tr
         = doRequestLoop e u (i + 1) (b * 2) c1 s1 (tr @ [Do, After b])"
proof -
  from assms(1) have "i < maxRetries" by simp
  with assms show ?thesis by (simp add: doRequestLoop.simps [of e u i])
qed

lemma doRequestLoop_calls:
  "doRequestLoop e u i b c s tr = (res, c', s', tr') \<Longrightarrow>
     transportCalls tr' \<le> transportCalls tr + (maxRetries - i)"
proof (induction e u i b c s tr rule: doRequestLoop.induct)
  case (1 e u i b c s tr)
  show ?case
  proof (cases "i < maxRetries \<and> newRequestErr e u = None")
    case False
    with "1.prems" show ?thesis
      by (auto simp add: doRequestLoop.simps [of e u i] split: option.splits if_splits)
  next
    case enter: True
    show ?thesis
    proof (cases "httpClient c (newRequest c u) i")
      case (Failed err)
      with enter "1.prems" show ?thesis
        by (auto simp add: doRequestLoop.simps [of e u i] transportCalls_def)
    next
      case (Responded resp)
      obtain c1 s1 where u: "updateRateLimit (Header resp) c s = (c1, s1)"
        by (cases "updateRateLimit (Header resp) c s")
      show ?thesis
      proof (cases "\<not> (StatusCode resp \<ge> 200 \<and> StatusCode resp < 300) \<and> StatusCode resp \<noteq> 429
                    \<and> StatusCode resp \<ge> 500 \<and> i < maxRetries - 1 \<and> \<not> ctxDone e i")
        case True
        with enter Responded u "1.prems"
        have rec: "doRequestLoop e u (i + 1) (b * 2) c1 s1 ((tr @ [Do]) @ [After b]) = (res, c', s', tr')"
          by (simp add: doRequestLoop.simps [of e u i])
        have "transportCalls tr' \<le> transportCalls ((tr @ [Do]) @ [After b]) + (maxRetries - (i + 1))"
        proof (rule "1.IH" [of resp "(c1, s1)" c1 s1 "tr @ [Do]" "Body resp"
              "jsonUnmarshal e (Body resp) zeroErrorResponse"])
          show "(c1, s1) = updateRateLimit (Header resp) c s" using u by simp
          show "doRequestLoop e u (i + 1) (b * 2) c1 s1 ((tr @ [Do]) @ [After b]) = (res, c', s', tr')"
            by (rule rec)
        qed (use enter True Responded in simp_all)
        moreover from True have "Suc i \<le> maxRetries" by linarith
        ultimately show ?thesis by (simp add: transportCalls_def)
      next
        case False
        with enter Responded u "1.prems" have "tr' = tr @ [Do] \<or> tr' = tr @ [Do, After b]"
          by (auto simp add: doRequestLoop.simps [of e u i] Let_def split: if_splits)
        with enter show ?thesis by (auto simp add: transportCalls_def)
      qed
    qed
  qed
qed

lemma doRequestLoop_responded:
  assumes "i < maxRetries" "newRequestErr e u = None"
    "httpClient c (newRequest c u) i = Responded resp"
    "updateRateLimit (Header resp) c s = (c1, s1)"
    "errResp = jsonUnmarshal e (Body resp) zeroErrorResponse"
  shows "doRequestLoop e u i b c s tr =
     (if StatusCode resp \<ge> 200 \<and> StatusCode resp < 300 then (Inr resp, c1, s1, tr @ [Do])
      else if StatusCode resp = 429 then
        (Inl (RateLimitErr
           \<lparr>RateLimitError.Code = codeOrDefault (errorDetail.Code (Error errResp)) ''RATE_LIMITED'',
            RateLimitError.Message =
              msgOrDefault (errorDetail.Message (Error errResp)) ''rate limit exceeded'',
            RateLimitError.StatusCode = 429,
            RateLimitError.RetryAfter = errorDetail.RetryAfter (Error errResp)\<rparr>),
         c1, s1, tr @ [Do])
      else if StatusCode resp \<ge> 500 \<and> i < maxRetries - 1 then
        (if ctxDone e i then (Inl (ContextErr (ctxErr e)), c1, s1, tr @ [Do, After b])
         else doRequestLoop e u (i + 1) (b * 2) c1 s1 (tr @ [Do, After b]))
      else
        (Inl (ApiError
           \<lparr>Error.Code = codeOrDefault (errorDetail.Code (Error errResp)) ''UNKNOWN_ERROR'',
            Error.Message =
              msgOrDefault (errorDetail.Message (Error errResp)) (''HTTP '' @ Itoa (StatusCode resp)),
            Error.StatusCode = StatusCode resp\<rparr>),
         c1, s1, tr @ [Do]))"
  using assms by (simp add: doRequestLoop.simps [of e u i] Let_def)

lemma doRequestLoop_failed:
  assumes "i < maxRetries" "newRequestErr e u = None"
    "httpClient c (newRequest c u) i = Failed err"
  shows "doRequestLoop e u i b c s tr
         = (Inl (ErrorfW ''ramaris: request failed: '' err), c, s, tr @ [Do])"
  using assms by (simp add: doRequestLoop.simps [of e u i])

lemma doRequestLoop_results:
  "i < maxRetries \<Longrightarrow> doRequestLoop e u i b c s tr = (res, c', s', tr') \<Longrightarrow>
     (\<exists>err. res = Inl (ErrorfW ''ramaris: failed to create request: '' err))
     \<or> (\<exists>err. res = Inl (ErrorfW ''ramaris: request failed: '' err))
     \<or> (\<exists>resp. res = Inr resp \<and> StatusCode resp \<ge> 200 \<and> StatusCode resp < 300)
     \<or> (\<exists>x. res = Inl (RateLimitErr x) \<and> RateLimitError.StatusCode x = 429)
     \<or> res = Inl (ContextErr (ctxErr e))
     \<or> (\<exists>x. res = Inl (ApiError x))"
proof (induction e u i b c s tr rule: doRequestLoop.induct)
  case (1 e u i b c s tr)
  show ?case
  proof (cases "newRequestErr e u = None")
    case False
    with "1.prems" show ?thesis
      by (auto simp add: doRequestLoop.simps [of e u i] split: option.splits if_splits)
  next
    case enter: True
    show ?thesis
    proof (cases "httpClient c (newRequest c u) i")
      case (Failed err)
      with enter "1.prems" show ?thesis
        by (auto simp add: doRequestLoop.simps [of e u i])
    next
      case (Responded resp)
      obtain c1 s1 where u: "updateRateLimit (Header resp) c s = (c1, s1)"
        by (cases "updateRateLimit (Header resp) c s")
      note step = doRequestLoop_responded [OF "1.prems"(1) enter Responded u refl, of b tr]
      show ?thesis
      proof (cases "\<not> (StatusCode resp \<ge> 200 \<and> StatusCode resp < 300) \<and> StatusCode resp \<noteq> 429
                    \<and> StatusCode resp \<ge> 500 \<and> i < maxRetries - 1 \<and> \<not> ctxDone e i")
        case True
        with step "1.prems"
        have rec: "doRequestLoop e u (i + 1) (b * 2) c1 s1 ((tr @ [Do]) @ [After b]) = (res, c', s', tr')"
          by simp
        show ?thesis
        proof (rule "1.IH" [of resp "(c1, s1)" c1 s1 "tr @ [Do]" "Body resp"
              "jsonUnmarshal e (Body resp) zeroErrorResponse"])
          show "(c1, s1) = updateRateLimit (Header resp) c s" using u by simp
          show "doRequestLoop e u (i + 1) (b * 2) c1 s1 ((tr @ [Do]) @ [After b]) = (res, c', s', tr')"
            by (rule rec)
          show "i + 1 < maxRetries" using True by linarith
        qed (use enter True Responded "1.prems" in simp_all)
      next
        case False
        with step "1.prems" show ?thesis
          by (auto split: if_splits)
      qed
    qed
  qed
qed

lemma updateRateLimit_fields:
  "updateRateLimit h c s = (c', s') \<Longrightarrow>
     apiKey c' = apiKey c \<and> baseURL c' = baseURL c \<and> httpClient c' = httpClient c"
  by (cases "carriesAll h") (auto simp add: updateRateLimit_missing updateRateLimit_carries)

lemma afterRetries_fields:
  "afterRetries c path opts s k = (ck, sk) \<Longrightarrow>
     apiKey ck = apiKey c \<and> baseURL ck = baseURL c \<and> httpClient ck = httpClient c"
proof (induction k arbitrary: ck sk)
  case 0
  then show ?case by simp
next
  case (Suc k)
  obtain c' s' where prev: "afterRetries c path opts s k = (c', s')"
    by (cases "afterRetries c path opts s k")
  note ih = Suc.IH [OF prev]
  show ?case
  proof (cases "transportAt c path opts k")
    case (Failed err)
    with Suc.prems prev ih show ?thesis by simp
  next
    case (Responded r)
    with Suc.prems prev have "updateRateLimit (Header r) c' s' = (ck, sk)" by simp
    from updateRateLimit_fields [OF this] ih show ?thesis by simp
  qed
qed

lemma afterRetries_transport:
  assumes "afterRetries c path opts s k = (ck, sk)"
  shows "httpClient ck (newRequest ck (buildURL c path opts)) i = transportAt c path opts i"
  using afterRetries_fields [OF assms] by (simp add: transportAt_def newRequest_def)

lemma retried_loop:
  assumes "retried e c path opts k" "k < maxRetries"
    "newRequestErr e (buildURL c path opts) = None"
    "afterRetries c path opts s k = (ck, sk)"
  shows "doRequestLoop e (buildURL c path opts) 0 b c s []
         = doRequestLoop e (buildURL c path opts) k (b * 2 ^ k) ck sk (retryTrace b k)"
  using assms
proof (induction k arbitrary: ck sk)
  case 0
  then show ?case by simp
next
  case (Suc k)
  obtain c' s' where prev: "afterRetries c path opts s k = (c', s')"
    by (cases "afterRetries c path opts s k")
  from Suc.prems(1) obtain r where
    r: "transportAt c path opts k = Responded r" "StatusCode r \<ge> 500" "\<not> ctxDone e k"
    and before: "retried e c path opts k"
    by (auto split: roundTrip.splits)
  from Suc.prems(4) prev r(1) have upd: "updateRateLimit (Header r) c' s' = (ck, sk)" by simp
  from Suc.prems(2) have k: "k < maxRetries - 1" "k < maxRetries" by simp_all
  have "doRequestLoop e (buildURL c path opts) 0 b c s []
        = doRequestLoop e (buildURL c path opts) k (b * 2 ^ k) c' s' (retryTrace b k)"
    by (rule Suc.IH [OF before k(2) Suc.prems(3) prev])
  also have "\<dots> = doRequestLoop e (buildURL c path opts) (k + 1) (b * 2 ^ k * 2) ck sk
                      (retryTrace b k @ [Do, After (b * 2 ^ k)])"
    by (rule doRequestLoop_retry [OF k(1) Suc.prems(3) _ r(2) r(3) upd])
       (simp add: afterRetries_transport [OF prev] r(1))
  finally show ?case by (simp add: mult_ac)
qed

lemma doRequest_retried:
  assumes "retried e c path opts k" "k < maxRetries"
    "newRequestErr e (buildURL c path opts) = None"
    "afterRetries c path opts s k = (ck, sk)"
  shows "doRequest e path opts c s
         = doRequestLoop e (buildURL c path opts) k (500 * Millisecond * 2 ^ k) ck sk
             (retryTrace (500 * Millisecond) k)"
  unfolding doRequest_def Let_def by (rule retried_loop [OF assms])

lemma afterRetries_Suc:
  assumes "afterRetries c path opts s k = (ck, sk)" "transportAt c path opts k = Responded r"
  shows "afterRetries c path opts s (Suc k) = updateRateLimit (Header r) ck sk"
  using assms by simp

lemma transportCalls_retryTrace: "transportCalls (retryTrace b k @ [Do]) = Suc k"
  by (induction k) (simp_all add: transportCalls_def)

lemma delays_append: "delays (tr @ tr') = delays tr @ delays tr'"
  by (induction tr rule: delays.induct) simp_all

text \<open>What \<open>doRequest\<close> returns when the response to call \<open>k\<close> ends the loop.\<close>

lemma doRequest_last_response:
  assumes "retried e c path opts k" "k < maxRetries"
    "newRequestErr e (buildURL c path opts) = None"
    "transportAt c path opts k = Responded r"
    "afterRetries c path opts s (Suc k) = (c', s')"
    "errResp = jsonUnmarshal e (Body r) zeroErrorResponse"
    "StatusCode r < 500 \<or> k = maxRetries - 1"
  shows "doRequest e path opts c s =
     (if StatusCode r \<ge> 200 \<and> StatusCode r < 300 then Inr r
      else if StatusCode r = 429 then
        Inl (RateLimitErr
           \<lparr>RateLimitError.Code = codeOrDefault (errorDetail.Code (Error errResp)) ''RATE_LIMITED'',
            RateLimitError.Message =
              msgOrDefault (errorDetail.Message (Error errResp)) ''rate limit exceeded'',
            RateLimitError.StatusCode = 429,
            RateLimitError.RetryAfter = errorDetail.RetryAfter (Error errResp)\<rparr>)
      else
        Inl (ApiError
           \<lparr>Error.Code = codeOrDefault (errorDetail.Code (Error errResp)) ''UNKNOWN_ERROR'',
            Error.Message =
              msgOrDefault (errorDetail.Message (Error errResp)) (''HTTP '' @ Itoa (StatusCode r)),
            Error.StatusCode = StatusCode r\<rparr>),
      c', s', retryTrace (500 * Millisecond) k @ [Do])"
proof -
  obtain ck sk where prev: "afterRetries c path opts s k = (ck, sk)"
    by (cases "afterRetries c path opts s k")
  from assms(5) afterRetries_Suc [OF prev assms(4)]
  have upd: "updateRateLimit (Header r) ck sk = (c', s')" by simp
  have tr: "httpClient ck (newRequest ck (buildURL c path opts)) k = Responded r"
    by (simp add: afterRetries_transport [OF prev] assms(4))
  have "doRequest e path opts c s
        = doRequestLoop e (buildURL c path opts) k (500 * Millisecond * 2 ^ k) ck sk
            (retryTrace (500 * Millisecond) k)"
    by (rule doRequest_retried [OF assms(1-3) prev])
  also note doRequestLoop_responded [OF assms(2,3) tr upd assms(6)]
  finally show ?thesis using assms(7) by auto
qed


text \<open>
  C1. Whatever the transport and the context do, one call of \<open>doRequest\<close> invokes the
  transport at most 3 times. When the first \<open>k\<close> calls (\<open>k < 3\<close>) are answered with
  5xx responses, the waits after them run to their end, and call \<open>k\<close> is answered with
  a 2xx response, the call returns that response after exactly \<open>k + 1\<close> transport
  calls, and the waits asked for are 500ms after the first 5xx and 1000ms after the second.
  Three 5xx responses in a row end in an \<open>*Error\<close> after the third call; there is no
  fourth call.
\<close>

theorem doRequest_bounded_retry:
  "(doRequest e path opts c s = (res, c1, s1, tr) \<longrightarrow> transportCalls tr \<le> 3)
   \<and> (retried e c path opts k \<and> k < 3 \<and> newRequestErr e (buildURL c path opts) = None
        \<and> transportAt c path opts k = Responded r
        \<and> 200 \<le> StatusCode r \<and> StatusCode r < 300
        \<and> afterRetries c path opts s (Suc k) = (c', s')
      \<longrightarrow> doRequest e path opts c s = (Inr r, c', s', retryTrace (500 * Millisecond) k @ [Do])
          \<and> transportCalls (retryTrace (500 * Millisecond) k @ [Do]) = Suc k
          \<and> delays (retryTrace (500 * Millisecond) k @ [Do])
              = take k [500 * Millisecond, 1000 * Millisecond])
   \<and> (retried e c path opts 2 \<and> newRequestErr e (buildURL c path opts) = None
        \<and> transportAt c path opts 2 = Responded r3 \<and> StatusCode r3 \<ge> 500
        \<and> afterRetries c path opts s 3 = (c3, s3)
      \<longrightarrow> (\<exists>err. doRequest e path opts c s
                  = (Inl (ApiError err), c3, s3,
                     [Do, After (500 * Millisecond), Do, After (1000 * Millisecond), Do])
                \<and> Error.StatusCode err = StatusCode r3))"
proof (intro conjI impI)
  assume "doRequest e path opts c s = (res, c1, s1, tr)"
  then have "transportCalls tr \<le> transportCalls [] + (maxRetries - 0)"
    unfolding doRequest_def Let_def by (rule doRequestLoop_calls)
  then show "transportCalls tr \<le> 3" by (simp add: transportCalls_def maxRetries_def)
next
  assume h: "retried e c path opts k \<and> k < 3 \<and> newRequestErr e (buildURL c path opts) = None
        \<and> transportAt c path opts k = Responded r
        \<and> 200 \<le> StatusCode r \<and> StatusCode r < 300
        \<and> afterRetries c path opts s (Suc k) = (c', s')"
  then have k: "k < maxRetries" and last: "StatusCode r < 500 \<or> k = maxRetries - 1"
    by (simp_all add: maxRetries_def)
  from h have pre: "retried e c path opts k" "newRequestErr e (buildURL c path opts) = None"
      "transportAt c path opts k = Responded r" "afterRetries c path opts s (Suc k) = (c', s')"
    by blast+
  from h doRequest_last_response [OF pre(1) k pre(2,3,4) refl last]
  show "doRequest e path opts c s = (Inr r, c', s', retryTrace (500 * Millisecond) k @ [Do])"
    by simp
  show "transportCalls (retryTrace (500 * Millisecond) k @ [Do]) = Suc k"
    by (rule transportCalls_retryTrace)
  from h have "k = 0 \<or> k = 1 \<or> k = 2" by auto
  then show "delays (retryTrace (500 * Millisecond) k @ [Do])
              = take k [500 * Millisecond, 1000 * Millisecond]"
    by (auto simp add: numeral_2_eq_2)
next
  assume h: "retried e c path opts 2 \<and> newRequestErr e (buildURL c path opts) = None
        \<and> transportAt c path opts 2 = Responded r3 \<and> StatusCode r3 \<ge> 500
        \<and> afterRetries c path opts s 3 = (c3, s3)"
  then have pre: "retried e c path opts 2" "newRequestErr e (buildURL c path opts) = None"
      "transportAt c path opts 2 = Responded r3" "afterRetries c path opts s 3 = (c3, s3)"
    by blast+
  have three: "(3::nat) = Suc 2" by simp
  have k: "(2::nat) < maxRetries" "StatusCode r3 < 500 \<or> 2 = maxRetries - 1"
    by (simp_all add: maxRetries_def)
  from h doRequest_last_response [OF pre(1) k(1) pre(2,3) pre(4) [unfolded three] refl k(2)]
  show "\<exists>err. doRequest e path opts c s
                  = (Inl (ApiError err), c3, s3,
                     [Do, After (500 * Millisecond), Do, After (1000 * Millisecond), Do])
                \<and> Error.StatusCode err = StatusCode r3"
    by (simp add: numeral_2_eq_2)
qed

theorem doRequest_bounded_retry_witness:
  "transportCalls (snd (snd (snd (doRequest calm ''/health'' None (clientOver flaky) emptyStore)))) \<le> 3
   \<and> doRequest calm ''/health'' None (clientOver flaky) emptyStore
      = (Inr \<lparr>StatusCode = 200, Header = noHeaders, Body = okBody\<rparr>, clientOver flaky, emptyStore,
         [Do, After 500000000, Do, After 1000000000, Do])
   \<and> (\<exists>err. doRequest calm ''/health'' None (clientOver broken) emptyStore
        = (Inl (ApiError err), clientOver broken, emptyStore,
           [Do, After 500000000, Do, After 1000000000, Do])
        \<and> Error.StatusCode err = 502)"
  using
    doRequest_bounded_retry [where e = calm and path = "''/health''" and opts = None
      and c = "clientOver flaky" and s = emptyStore
      and res = "fst (doRequest calm ''/health'' None (clientOver flaky) emptyStore)"
      and ?c1.0 = "fst (snd (doRequest calm ''/health'' None (clientOver flaky) emptyStore))"
      and ?s1.0 = "fst (snd (snd (doRequest calm ''/health'' None (clientOver flaky) emptyStore)))"
      and tr = "snd (snd (snd (doRequest calm ''/health'' None (clientOver flaky) emptyStore)))"
      and k = "Suc (Suc 0)" and r = "\<lparr>StatusCode = 200, Header = noHeaders, Body = okBody\<rparr>"
      and c' = "clientOver flaky" and s' = emptyStore]
    doRequest_bounded_retry [where e = calm and path = "''/health''" and opts = None
      and c = "clientOver broken" and s = emptyStore
      and ?r3.0 = "\<lparr>StatusCode = 502, Header = noHeaders, Body = badGatewayBody\<rparr>"
      and ?c3.0 = "clientOver broken" and ?s3.0 = emptyStore]
  by (simp add: example_defs flaky_def broken_def Millisecond_def numeral_2_eq_2 numeral_3_eq_3)

text \<open>
  C3. When the response to transport call \<open>k\<close> has status 429 (after \<open>k\<close> retried 5xx
  responses, \<open>k = 0\<close> for a 429 at once), \<open>doRequest\<close> returns a
  \<open>*RateLimitError\<close> and that call is the last one: with \<open>k = 0\<close> the trace is the
  single transport call. Its \<open>StatusCode\<close> is 429, its \<open>RetryAfter\<close> is the
  \<open>retryAfter\<close> the decoder left in the envelope, its \<open>Code\<close> and \<open>Message\<close>
  are those of the envelope when not empty. When the decoder leaves the zero envelope (body
  missing or malformed), they are \<open>RATE_LIMITED\<close>, \<open>rate limit exceeded\<close> and 0.
\<close>

theorem doRequest_rate_limited:
  assumes "retried e c path opts k" "k < 3"
    "newRequestErr e (buildURL c path opts) = None"
    "transportAt c path opts k = Responded r" "StatusCode r = 429"
    "afterRetries c path opts s (Suc k) = (c', s')"
    "errResp = jsonUnmarshal e (Body r) zeroErrorResponse"
  shows "doRequest e path opts c s =
      (Inl (RateLimitErr
         \<lparr>RateLimitError.Code = codeOrDefault (errorDetail.Code (Error errResp)) ''RATE_LIMITED'',
          RateLimitError.Message =
            msgOrDefault (errorDetail.Message (Error errResp)) ''rate limit exceeded'',
          RateLimitError.StatusCode = 429,
          RateLimitError.RetryAfter = errorDetail.RetryAfter (Error errResp)\<rparr>),
       c', s', retryTrace (500 * Millisecond) k @ [Do])
    \<and> transportCalls (retryTrace (500 * Millisecond) k @ [Do]) = Suc k
    \<and> (k = 0 \<longrightarrow> retryTrace (500 * Millisecond) k @ [Do] = [Do])
    \<and> (errResp = zeroErrorResponse \<longrightarrow>
          codeOrDefault (errorDetail.Code (Error errResp)) ''RATE_LIMITED'' = ''RATE_LIMITED''
          \<and> msgOrDefault (errorDetail.Message (Error errResp)) ''rate limit exceeded''
              = ''rate limit exceeded''
          \<and> errorDetail.RetryAfter (Error errResp) = 0)
    \<and> (errorDetail.Code (Error errResp) \<noteq> [] \<longrightarrow>
          codeOrDefault (errorDetail.Code (Error errResp)) ''RATE_LIMITED''
            = errorDetail.Code (Error errResp))"
proof -
  from assms(2) have k: "k < maxRetries" by (simp add: maxRetries_def)
  from assms(5) have last: "StatusCode r < 500 \<or> k = maxRetries - 1" by simp
  from doRequest_last_response [OF assms(1) k assms(3,4,6,7) last] assms(5)
  have "doRequest e path opts c s =
      (Inl (RateLimitErr
         \<lparr>RateLimitError.Code = codeOrDefault (errorDetail.Code (Error errResp)) ''RATE_LIMITED'',
          RateLimitError.Message =
            msgOrDefault (errorDetail.Message (Error errResp)) ''rate limit exceeded'',
          RateLimitError.StatusCode = 429,
          RateLimitError.RetryAfter = errorDetail.RetryAfter (Error errResp)\<rparr>),
       c', s', retryTrace (500 * Millisecond) k @ [Do])"
    by simp
  then show ?thesis
    by (simp add: transportCalls_retryTrace codeOrDefault_def msgOrDefault_def zeroErrorResponse_def)
qed

theorem doRequest_rate_limited_witness:
  "doRequest calm ''/health'' None (clientOver limited) emptyStore =
     (Inl (RateLimitErr
        \<lparr>RateLimitError.Code = ''RATE_LIMITED'', RateLimitError.Message = ''too many requests'',
         RateLimitError.StatusCode = 429, RateLimitError.RetryAfter = 60\<rparr>),
      clientOver limited, emptyStore, [Do])
   \<and> doRequest calm ''/health'' None (clientOver limitedBare) emptyStore =
     (Inl (RateLimitErr
        \<lparr>RateLimitError.Code = ''RATE_LIMITED'', RateLimitError.Message = ''rate limit exceeded'',
         RateLimitError.StatusCode = 429, RateLimitError.RetryAfter = 0\<rparr>),
      clientOver limitedBare, emptyStore, [Do])"
  using
    doRequest_rate_limited [where e = calm and path = "''/health''" and opts = None
      and c = "clientOver limited" and s = emptyStore and k = 0
      and r = "\<lparr>StatusCode = 429, Header = noHeaders, Body = rateLimitedBody\<rparr>"
      and c' = "clientOver limited" and s' = emptyStore, OF _ _ _ _ _ _ refl]
    doRequest_rate_limited [where e = calm and path = "''/health''" and opts = None
      and c = "clientOver limitedBare" and s = emptyStore and k = 0
      and r = "\<lparr>StatusCode = 429, Header = noHeaders, Body = ''<html>too many</html>''\<rparr>"
      and c' = "clientOver limitedBare" and s' = emptyStore, OF _ _ _ _ _ _ refl]
  by (simp add: example_defs limited_def limitedBare_def sampleUnmarshal_def codeOrDefault_def
      msgOrDefault_def zeroErrorResponse_def rateLimitedBody_def notFoundBody_def badGatewayBody_def)


lemma Itoa_503: "Itoa 503 = ''503''"
  by (simp add: Itoa_def formatDigits.simps digitChar_def)

text \<open>
  C4, as amended. For a 4xx response other than 429, and for a 5xx response to the third
  transport call, \<open>doRequest\<close> returns an \<open>*Error\<close> after that call, with no further
  call: its \<open>StatusCode\<close> is the status of the response, its \<open>Code\<close> is the
  envelope's code and otherwise \<open>UNKNOWN_ERROR\<close>, for 4xx and for exhausted 5xx alike, and
  its \<open>Message\<close> is the envelope's message and otherwise \<open>HTTP <status>\<close>.
\<close>

theorem doRequest_api_error:
  assumes "retried e c path opts k" "k < 3"
    "newRequestErr e (buildURL c path opts) = None"
    "transportAt c path opts k = Responded r"
    "(400 \<le> StatusCode r \<and> StatusCode r < 500 \<and> StatusCode r \<noteq> 429)
     \<or> (StatusCode r \<ge> 500 \<and> k = 2)"
    "afterRetries c path opts s (Suc k) = (c', s')"
    "errResp = jsonUnmarshal e (Body r) zeroErrorResponse"
  shows "doRequest e path opts c s =
      (Inl (ApiError
         \<lparr>Error.Code = codeOrDefault (errorDetail.Code (Error errResp)) ''UNKNOWN_ERROR'',
          Error.Message =
            msgOrDefault (errorDetail.Message (Error errResp)) (''HTTP '' @ Itoa (StatusCode r)),
          Error.StatusCode = StatusCode r\<rparr>),
       c', s', retryTrace (500 * Millisecond) k @ [Do])
    \<and> transportCalls (retryTrace (500 * Millisecond) k @ [Do]) = Suc k
    \<and> (k = 0 \<longrightarrow> retryTrace (500 * Millisecond) k @ [Do] = [Do])
    \<and> (errResp = zeroErrorResponse \<longrightarrow>
          codeOrDefault (errorDetail.Code (Error errResp)) ''UNKNOWN_ERROR'' = ''UNKNOWN_ERROR''
          \<and> msgOrDefault (errorDetail.Message (Error errResp)) (''HTTP '' @ Itoa (StatusCode r))
              = ''HTTP '' @ Itoa (StatusCode r))
    \<and> (errorDetail.Code (Error errResp) \<noteq> [] \<longrightarrow>
          codeOrDefault (errorDetail.Code (Error errResp)) ''UNKNOWN_ERROR''
            = errorDetail.Code (Error errResp))"
proof -
  from assms(2) have k: "k < maxRetries" by (simp add: maxRetries_def)
  from assms(5) have last: "StatusCode r < 500 \<or> k = maxRetries - 1"
    by (auto simp add: maxRetries_def)
  from assms(5) have st: "\<not> (StatusCode r \<ge> 200 \<and> StatusCode r < 300)" "StatusCode r \<noteq> 429"
    by auto
  from doRequest_last_response [OF assms(1) k assms(3,4,6,7) last] st
  have "doRequest e path opts c s =
      (Inl (ApiError
         \<lparr>Error.Code = codeOrDefault (errorDetail.Code (Error errResp)) ''UNKNOWN_ERROR'',
          Error.Message =
            msgOrDefault (errorDetail.Message (Error errResp)) (''HTTP '' @ Itoa (StatusCode r)),
          Error.StatusCode = StatusCode r\<rparr>),
       c', s', retryTrace (500 * Millisecond) k @ [Do])"
    by simp
  then show ?thesis
    by (simp add: transportCalls_retryTrace codeOrDefault_def msgOrDefault_def zeroErrorResponse_def)
qed

theorem doRequest_api_error_witness:
  "doRequest calm ''/health'' None (clientOver missing) emptyStore =
     (Inl (ApiError
        \<lparr>Error.Code = ''NOT_FOUND'', Error.Message = ''strategy not found'',
         Error.StatusCode = 404\<rparr>),
      clientOver missing, emptyStore, [Do])
   \<and> doRequest calm ''/health'' None (clientOver broken) emptyStore =
     (Inl (ApiError
        \<lparr>Error.Code = ''SERVER_ERROR'', Error.Message = ''bad gateway'', Error.StatusCode = 502\<rparr>),
      clientOver broken, emptyStore, [Do, After 500000000, Do, After 1000000000, Do])"
  using
    doRequest_api_error [where e = calm and path = "''/health''" and opts = None
      and c = "clientOver missing" and s = emptyStore and k = 0
      and r = "\<lparr>StatusCode = 404, Header = noHeaders, Body = notFoundBody\<rparr>"
      and c' = "clientOver missing" and s' = emptyStore, OF _ _ _ _ _ _ refl]
    doRequest_api_error [where e = calm and path = "''/health''" and opts = None
      and c = "clientOver broken" and s = emptyStore and k = "Suc (Suc 0)"
      and r = "\<lparr>StatusCode = 502, Header = noHeaders, Body = badGatewayBody\<rparr>"
      and c' = "clientOver broken" and s' = emptyStore, OF _ _ _ _ _ _ refl]
  by (simp add: example_defs missing_def broken_def sampleUnmarshal_def codeOrDefault_def
      msgOrDefault_def zeroErrorResponse_def rateLimitedBody_def notFoundBody_def badGatewayBody_def
      Millisecond_def)

text \<open>
  C4 as stated fails: after three 503 responses without an envelope the code of the error is
  \<open>UNKNOWN_ERROR\<close>, not \<open>SERVER_ERROR\<close>.
\<close>

theorem doRequest_server_error_default_counterexample:
  "fst (doRequest calm ''/health'' None (clientOver outage) emptyStore) =
     Inl (ApiError
        \<lparr>Error.Code = ''UNKNOWN_ERROR'', Error.Message = ''HTTP 503'', Error.StatusCode = 503\<rparr>)
   \<and> fst (doRequest calm ''/health'' None (clientOver outage) emptyStore) \<noteq>
     Inl (ApiError
        \<lparr>Error.Code = ''SERVER_ERROR'', Error.Message = ''HTTP 503'', Error.StatusCode = 503\<rparr>)
   \<and> snd (snd (snd (doRequest calm ''/health'' None (clientOver outage) emptyStore)))
     = [Do, After 500000000, Do, After 1000000000, Do]"
  by (simp add: doRequest_def buildURL_def doRequestLoop.simps maxRetries_def example_defs outage_def
      sampleUnmarshal_def codeOrDefault_def msgOrDefault_def zeroErrorResponse_def
      rateLimitedBody_def notFoundBody_def badGatewayBody_def Millisecond_def Itoa_503)


text \<open>
  C10. For a response with a status from 300 to 499 other than 429, to transport call
  \<open>k\<close>, \<open>doRequest\<close> returns an \<open>*Error\<close> with that status right after the call:
  the trace ends with that transport call, no wait is asked for after it, and with
  \<open>k = 0\<close> the trace is the single call.
\<close>

theorem doRequest_other_status:
  assumes "retried e c path opts k" "k < 3"
    "newRequestErr e (buildURL c path opts) = None"
    "transportAt c path opts k = Responded r"
    "300 \<le> StatusCode r" "StatusCode r < 500" "StatusCode r \<noteq> 429"
    "afterRetries c path opts s (Suc k) = (c', s')"
    "errResp = jsonUnmarshal e (Body r) zeroErrorResponse"
  shows "doRequest e path opts c s =
      (Inl (ApiError
         \<lparr>Error.Code = codeOrDefault (errorDetail.Code (Error errResp)) ''UNKNOWN_ERROR'',
          Error.Message =
            msgOrDefault (errorDetail.Message (Error errResp)) (''HTTP '' @ Itoa (StatusCode r)),
          Error.StatusCode = StatusCode r\<rparr>),
       c', s', retryTrace (500 * Millisecond) k @ [Do])
    \<and> transportCalls (retryTrace (500 * Millisecond) k @ [Do]) = Suc k
    \<and> delays (retryTrace (500 * Millisecond) k @ [Do]) = delays (retryTrace (500 * Millisecond) k)
    \<and> (k = 0 \<longrightarrow> retryTrace (500 * Millisecond) k @ [Do] = [Do])"
proof -
  from assms(2) have k: "k < maxRetries" by (simp add: maxRetries_def)
  from assms(6) have last: "StatusCode r < 500 \<or> k = maxRetries - 1" by simp
  from assms(5,7) have st: "\<not> (StatusCode r \<ge> 200 \<and> StatusCode r < 300)" "StatusCode r \<noteq> 429"
    by auto
  from doRequest_last_response [OF assms(1) k assms(3,4,8,9) last] st
  show ?thesis
    by (simp add: transportCalls_retryTrace delays_append)
qed

lemma Itoa_304: "Itoa 304 = ''304''"
  by (simp add: Itoa_def formatDigits.simps digitChar_def)

theorem doRequest_other_status_witness:
  "doRequest calm ''/health'' None (clientOver notModified) emptyStore
     = (Inl (ApiError
          \<lparr>Error.Code = ''UNKNOWN_ERROR'', Error.Message = ''HTTP 304'', Error.StatusCode = 304\<rparr>),
        clientOver notModified, emptyStore, [Do])"
  using
    doRequest_other_status [where e = calm and path = "''/health''" and opts = None
      and c = "clientOver notModified" and s = emptyStore and k = 0
      and r = "\<lparr>StatusCode = 304, Header = noHeaders, Body = []\<rparr>"
      and c' = "clientOver notModified" and s' = emptyStore, OF _ _ _ _ _ _ _ _ refl]
  by (simp add: example_defs notModified_def sampleUnmarshal_def codeOrDefault_def
      msgOrDefault_def zeroErrorResponse_def rateLimitedBody_def notFoundBody_def badGatewayBody_def
      Itoa_304)

lemma doRequest_wait_cancelled:
  assumes "retried e c path opts k" "Suc k < maxRetries"
    "newRequestErr e (buildURL c path opts) = None"
    "transportAt c path opts k = Responded r" "StatusCode r \<ge> 500" "ctxDone e k"
    "afterRetries c path opts s (Suc k) = (c', s')"
  shows "doRequest e path opts c s
         = (Inl (ContextErr (ctxErr e)), c', s',
            retryTrace (500 * Millisecond) k @ [Do, After (500 * Millisecond * 2 ^ k)])"
proof -
  obtain ck sk where prev: "afterRetries c path opts s k = (ck, sk)"
    by (cases "afterRetries c path opts s k")
  from assms(7) afterRetries_Suc [OF prev assms(4)]
  have upd: "updateRateLimit (Header r) ck sk = (c', s')" by simp
  have tr: "httpClient ck (newRequest ck (buildURL c path opts)) k = Responded r"
    by (simp add: afterRetries_transport [OF prev] assms(4))
  from assms(2) have k: "k < maxRetries" "k < maxRetries - 1" by simp_all
  have "doRequest e path opts c s
        = doRequestLoop e (buildURL c path opts) k (500 * Millisecond * 2 ^ k) ck sk
            (retryTrace (500 * Millisecond) k)"
    by (rule doRequest_retried [OF assms(1) k(1) assms(3) prev])
  also note doRequestLoop_responded [OF k(1) assms(3) tr upd refl]
  finally show ?thesis using assms(5,6) k(2) by simp
qed

lemma doRequest_transport_failed:
  assumes "retried e c path opts k" "k < maxRetries"
    "newRequestErr e (buildURL c path opts) = None"
    "transportAt c path opts k = Failed err"
    "afterRetries c path opts s k = (c', s')"
  shows "doRequest e path opts c s
         = (Inl (ErrorfW ''ramaris: request failed: '' err), c', s',
            retryTrace (500 * Millisecond) k @ [Do])"
proof -
  have tr: "httpClient c' (newRequest c' (buildURL c path opts)) k = Failed err"
    by (simp add: afterRetries_transport [OF assms(5)] assms(4))
  have "doRequest e path opts c s
        = doRequestLoop e (buildURL c path opts) k (500 * Millisecond * 2 ^ k) c' s'
            (retryTrace (500 * Millisecond) k)"
    by (rule doRequest_retried [OF assms(1,2,3,5)])
  also note doRequestLoop_failed [OF assms(2,3) tr]
  finally show ?thesis .
qed

text \<open>
  C6. When transport call \<open>k\<close> fails, \<open>doRequest\<close> returns at once, with no further
  call, the error \<open>fmt.Errorf("ramaris: request failed: %w", err)\<close>: the transport's
  error wrapped, whatever it is (a connection error, a cancelled context, a deadline), and
  given back unchanged by \<open>Unwrap\<close>, so that the caller can tell the causes apart. When
  the context is done during the wait after a 5xx response, \<open>doRequest\<close> returns
  \<open>ctx.Err()\<close> itself.
\<close>

theorem doRequest_transport_failure:
  "(retried e c path opts k \<and> k < 3 \<and> newRequestErr e (buildURL c path opts) = None
      \<and> transportAt c path opts k = Failed err \<and> afterRetries c path opts s k = (c', s')
    \<longrightarrow> doRequest e path opts c s
          = (Inl (ErrorfW ''ramaris: request failed: '' err), c', s',
             retryTrace (500 * Millisecond) k @ [Do])
        \<and> Unwrap (ErrorfW ''ramaris: request failed: '' err) = Some err
        \<and> isTransportError (ErrorfW ''ramaris: request failed: '' err)
        \<and> transportCalls (retryTrace (500 * Millisecond) k @ [Do]) = Suc k)
   \<and> (retried e c path opts k \<and> Suc k < 3 \<and> newRequestErr e (buildURL c path opts) = None
      \<and> transportAt c path opts k = Responded r \<and> StatusCode r \<ge> 500 \<and> ctxDone e k
      \<and> afterRetries c path opts s (Suc k) = (c2, s2)
    \<longrightarrow> doRequest e path opts c s
          = (Inl (ContextErr (ctxErr e)), c2, s2,
             retryTrace (500 * Millisecond) k @ [Do, After (500 * Millisecond * 2 ^ k)]))"
proof (intro conjI impI)
  assume h: "retried e c path opts k \<and> k < 3 \<and> newRequestErr e (buildURL c path opts) = None
      \<and> transportAt c path opts k = Failed err \<and> afterRetries c path opts s k = (c', s')"
  then have k: "k < maxRetries" by (simp add: maxRetries_def)
  from h have pre: "retried e c path opts k" "newRequestErr e (buildURL c path opts) = None"
      "transportAt c path opts k = Failed err" "afterRetries c path opts s k = (c', s')"
    by blast+
  show "doRequest e path opts c s
          = (Inl (ErrorfW ''ramaris: request failed: '' err), c', s',
             retryTrace (500 * Millisecond) k @ [Do])"
    by (rule doRequest_transport_failed [OF pre(1) k pre(2,3,4)])
  show "Unwrap (ErrorfW ''ramaris: request failed: '' err) = Some err" by simp
  show "isTransportError (ErrorfW ''ramaris: request failed: '' err)" by simp
  show "transportCalls (retryTrace (500 * Millisecond) k @ [Do]) = Suc k"
    by (rule transportCalls_retryTrace)
next
  assume h: "retried e c path opts k \<and> Suc k < 3 \<and> newRequestErr e (buildURL c path opts) = None
      \<and> transportAt c path opts k = Responded r \<and> StatusCode r \<ge> 500 \<and> ctxDone e k
      \<and> afterRetries c path opts s (Suc k) = (c2, s2)"
  then have k: "Suc k < maxRetries" by (simp add: maxRetries_def)
  from h have pre: "retried e c path opts k" "newRequestErr e (buildURL c path opts) = None"
      "transportAt c path opts k = Responded r" "StatusCode r \<ge> 500" "ctxDone e k"
      "afterRetries c path opts s (Suc k) = (c2, s2)"
    by blast+
  show "doRequest e path opts c s
          = (Inl (ContextErr (ctxErr e)), c2, s2,
             retryTrace (500 * Millisecond) k @ [Do, After (500 * Millisecond * 2 ^ k)])"
    by (rule doRequest_wait_cancelled [OF pre(1) k pre(2-6)])
qed

theorem doRequest_transport_failure_witness:
  "doRequest calm ''/health'' None newClient emptyStore
     = (Inl (ErrorfW ''ramaris: request failed: '' (Foreign ''connection refused'')),
        newClient, emptyStore, [Do])
   \<and> doRequest calm ''/health'' None (clientOver timedOut) emptyStore
     = (Inl (ErrorfW ''ramaris: request failed: '' (ContextErr DeadlineExceeded)),
        clientOver timedOut, emptyStore, [Do, After 500000000, Do])
   \<and> doRequest cancelled ''/health'' None (clientOver broken) emptyStore
     = (Inl (ContextErr Canceled), clientOver broken, emptyStore, [Do, After 500000000])"
  using
    doRequest_transport_failure [where e = calm and path = "''/health''" and opts = None
      and c = newClient and s = emptyStore and k = 0
      and err = "Foreign ''connection refused''" and c' = newClient and s' = emptyStore]
    doRequest_transport_failure [where e = calm and path = "''/health''" and opts = None
      and c = "clientOver timedOut" and s = emptyStore and k = "Suc 0"
      and err = "ContextErr DeadlineExceeded" and c' = "clientOver timedOut" and s' = emptyStore]
    doRequest_transport_failure [where e = cancelled and path = "''/health''" and opts = None
      and c = "clientOver broken" and s = emptyStore and k = 0
      and r = "\<lparr>StatusCode = 502, Header = noHeaders, Body = badGatewayBody\<rparr>"
      and ?c2.0 = "clientOver broken" and ?s2.0 = emptyStore]
  by (simp add: example_defs timedOut_def broken_def newClient_def deadTransport_def cancelled_def
      Millisecond_def)

text \<open>
  C9. \<open>doRequest\<close> never returns the error \<open>ramaris: max retries exceeded\<close>: that value
  is made only by the statement after the loop, and every path through the loop returns
  from inside it.
\<close>

theorem doRequest_fallback_unreachable:
  "fst (doRequest e path opts c s) \<noteq> Inl (Errorf ''ramaris: max retries exceeded'')"
proof -
  obtain res c' s' tr where r: "doRequest e path opts c s = (res, c', s', tr)"
    by (cases "doRequest e path opts c s")
  have "0 < maxRetries" by (simp add: maxRetries_def)
  from doRequestLoop_results [OF this r [unfolded doRequest_def Let_def]]
  have "res \<noteq> Inl (Errorf ''ramaris: max retries exceeded'')" by auto
  with r show ?thesis by simp
qed

theorem doRequest_fallback_unreachable_witness:
  "fst (doRequest calm ''/health'' None (clientOver outage) emptyStore)
     \<noteq> Inl (Errorf ''ramaris: max retries exceeded'')
   \<and> fst (doRequest cancelled ''/health'' None (clientOver broken) emptyStore)
     \<noteq> Inl (Errorf ''ramaris: max retries exceeded'')"
  using doRequest_fallback_unreachable [of calm "''/health''" None "clientOver outage" emptyStore]
    doRequest_fallback_unreachable [of cancelled "''/health''" None "clientOver broken" emptyStore]
  by simp

subsection \<open>The URL\<close>

lemma isDigit_digitChar: "isDigit (digitChar d)"
proof -
  have "m \<in> {0, 1, 2, 3, 4, 5, 6, 7, 8, 9}" if "m < 10" for m :: nat
    using that by auto
  then have "d mod 10 \<in> {0, 1, 2, 3, 4, 5, 6, 7, 8, 9}" by simp
  then show ?thesis
    unfolding digitChar_def isDigit_def by (elim insertE emptyE) simp_all
qed

lemma formatDigits_digits: "list_all isDigit (formatDigits n)"
proof (induction n rule: formatDigits.induct)
  case (1 n)
  then show ?case
    by (subst formatDigits.simps) (simp add: isDigit_digitChar)
qed

lemma escapeByte_digit: "isDigit ch \<Longrightarrow> escapeByte ch = [ch]"
  by (auto simp add: escapeByte_def shouldEscape_def isDigit_def Let_def)

lemma QueryEscape_digits: "list_all isDigit ds \<Longrightarrow> QueryEscape ds = ds"
  by (induction ds) (simp_all add: QueryEscape_def escapeByte_digit)

lemma QueryEscape_Itoa: "0 \<le> n \<Longrightarrow> QueryEscape (Itoa n) = Itoa n"
  by (simp add: Itoa_def QueryEscape_digits formatDigits_digits)

lemma QueryEscape_keys:
  "QueryEscape ''page'' = ''page''" "QueryEscape ''pageSize'' = ''pageSize''"
  by (simp_all add: QueryEscape_def escapeByte_def shouldEscape_def)

lemma Encode_page: "0 \<le> p \<Longrightarrow> Encode (Set ''page'' (Itoa p) []) = ''page='' @ Itoa p"
  by (simp add: Encode_def Set_def valuesOf_def QueryEscape_keys QueryEscape_Itoa)

lemma Encode_pageSize:
  "0 \<le> n \<Longrightarrow> Encode (Set ''pageSize'' (Itoa n) []) = ''pageSize='' @ Itoa n"
  by (simp add: Encode_def Set_def valuesOf_def QueryEscape_keys QueryEscape_Itoa)

lemma Encode_both:
  "0 \<le> p \<Longrightarrow> 0 \<le> n \<Longrightarrow>
     Encode (Set ''pageSize'' (Itoa n) (Set ''page'' (Itoa p) []))
       = ''page='' @ Itoa p @ ''&pageSize='' @ Itoa n"
  by (simp add: Encode_def Set_def valuesOf_def QueryEscape_keys QueryEscape_Itoa)

lemma Itoa_small: "Itoa 1 = ''1''" "Itoa 2 = ''2''" "Itoa 10 = ''10''"
  by (simp_all add: Itoa_def formatDigits.simps digitChar_def)

text \<open>
  C5. \<open>buildURL\<close> returns base + path, followed by a query string only when an option
  is given with a positive field: \<open>page\<close> when \<open>Page\<close> is positive, \<open>pageSize\<close> when
  \<open>PageSize\<close> is positive, \<open>page\<close> first. The values are the decimal digits, which
  \<open>url.QueryEscape\<close> leaves as they are. So page 2 alone gives \<open>?page=2\<close>, page 1 with
  page size 10 gives \<open>?page=1&pageSize=10\<close>, and the zero option, like nil, gives no
  query string.
\<close>

theorem buildURL_query:
  "buildURL c path None = baseURL c @ path
   \<and> buildURL c path (Some opt) =
       baseURL c @ path @
         (if Page opt > 0 \<and> PageSize opt > 0
            then ''?page='' @ Itoa (Page opt) @ ''&pageSize='' @ Itoa (PageSize opt)
          else if Page opt > 0 then ''?page='' @ Itoa (Page opt)
          else if PageSize opt > 0 then ''?pageSize='' @ Itoa (PageSize opt)
          else [])
   \<and> (0 < n \<longrightarrow> QueryEscape (Itoa n) = Itoa n)
   \<and> buildURL c path (Some \<lparr>Page = 2, PageSize = 0\<rparr>) = baseURL c @ path @ ''?page=2''
   \<and> buildURL c path (Some \<lparr>Page = 1, PageSize = 10\<rparr>) = baseURL c @ path @ ''?page=1&pageSize=10''
   \<and> buildURL c path (Some \<lparr>Page = 0, PageSize = 0\<rparr>) = baseURL c @ path"
proof -
  have general: "buildURL c path (Some opt) =
       baseURL c @ path @
         (if Page opt > 0 \<and> PageSize opt > 0
            then ''?page='' @ Itoa (Page opt) @ ''&pageSize='' @ Itoa (PageSize opt)
          else if Page opt > 0 then ''?page='' @ Itoa (Page opt)
          else if PageSize opt > 0 then ''?pageSize='' @ Itoa (PageSize opt)
          else [])" for opt
    by (simp add: buildURL_def Let_def Encode_page Encode_pageSize Encode_both)
       (simp add: Set_def)
  show ?thesis
    by (simp add: general Itoa_small QueryEscape_Itoa) (simp add: buildURL_def)
qed

theorem buildURL_query_witness:
  "buildURL newClient ''/strategies'' None = ''https://www.ramaris.app/api/v1/strategies''
   \<and> buildURL newClient ''/strategies'' (Some \<lparr>Page = 3, PageSize = 50\<rparr>)
      = ''https://www.ramaris.app/api/v1/strategies?page=3&pageSize=50''
   \<and> buildURL newClient ''/wallets'' (Some \<lparr>Page = - 1, PageSize = 50\<rparr>)
      = ''https://www.ramaris.app/api/v1/wallets?pageSize=50''
   \<and> QueryEscape (Itoa 50) = ''50''"
  using buildURL_query [of newClient "''/strategies''" "\<lparr>Page = 3, PageSize = 50\<rparr>" 50]
    buildURL_query [of newClient "''/wallets''" "\<lparr>Page = - 1, PageSize = 50\<rparr>" 50]
  by (simp add: newClient_def NewClient_def defaultBaseURL_def Itoa_def formatDigits.simps
      digitChar_def)

subsection \<open>Life cycle of the snapshot\<close>






subsection \<open>Decoding errors of the endpoints\<close>

lemma doRequest_not_decoding:
  assumes "doRequest e path opts c s = (Inl x, c', s', tr)"
  shows "\<not> isDecodingError x"
proof -
  have "0 < maxRetries" by (simp add: maxRetries_def)
  from doRequestLoop_results [OF this assms [unfolded doRequest_def Let_def]]
  show ?thesis by auto
qed

lemma doRequest_success_status:
  assumes "doRequest e path opts c s = (Inr resp, c', s', tr)"
  shows "200 \<le> StatusCode resp \<and> StatusCode resp < 300"
proof -
  have "0 < maxRetries" by (simp add: maxRetries_def)
  from doRequestLoop_results [OF this assms [unfolded doRequest_def Let_def]]
  show ?thesis by auto
qed

text \<open>
  The shape shared by the endpoints, for a result \<open>out\<close> computed from what
  \<open>doRequest\<close> returned (\<open>dr\<close>): an error of \<open>doRequest\<close> is passed on as it is, a
  response whose body the decoder refuses gives the wrapped decoder error, and a decoding
  error comes from nowhere else.
\<close>

lemma endpoint_errors:
  fixes dec :: "string \<Rightarrow> goError + 'b" and f :: "'b \<Rightarrow> 'a"
  assumes out: "out =
      (case dr of
         (Inl err, c1, s1, tr1) \<Rightarrow> (Inl err, c1, s1, tr1)
       | (Inr resp, c1, s1, tr1) \<Rightarrow>
           (case dec (Body resp) of
              Inl err \<Rightarrow> (Inl (ErrorfW ''ramaris: failed to decode response: '' err), c1, s1, tr1)
            | Inr v \<Rightarrow> (Inr (f v), c1, s1, tr1)))"
    and dr: "dr = doRequest e path opts c s"
  shows "(dr = (Inr resp, c', s', tr) \<and> dec (Body resp) = Inl err
            \<longrightarrow> out = (Inl (ErrorfW ''ramaris: failed to decode response: '' err), c', s', tr))
       \<and> (dr = (Inl x, c', s', tr) \<longrightarrow> out = (Inl x, c', s', tr) \<and> \<not> isDecodingError x)
       \<and> (out = (Inl y, c', s', tr) \<and> isDecodingError y
            \<longrightarrow> (\<exists>resp2 err2. dr = (Inr resp2, c', s', tr)
                   \<and> 200 \<le> StatusCode resp2 \<and> StatusCode resp2 < 300
                   \<and> dec (Body resp2) = Inl err2
                   \<and> y = ErrorfW ''ramaris: failed to decode response: '' err2))"
proof (intro conjI impI)
  assume "dr = (Inr resp, c', s', tr) \<and> dec (Body resp) = Inl err"
  with out show "out = (Inl (ErrorfW ''ramaris: failed to decode response: '' err), c', s', tr)"
    by simp
next
  assume h: "dr = (Inl x, c', s', tr)"
  with out show "out = (Inl x, c', s', tr)" by simp
  from h dr have "doRequest e path opts c s = (Inl x, c', s', tr)" by simp
  then show "\<not> isDecodingError x" by (rule doRequest_not_decoding)
next
  assume h: "out = (Inl y, c', s', tr) \<and> isDecodingError y"
  obtain res c1 s1 tr1 where d: "dr = (res, c1, s1, tr1)" by (cases dr)
  show "\<exists>resp2 err2. dr = (Inr resp2, c', s', tr)
                   \<and> 200 \<le> StatusCode resp2 \<and> StatusCode resp2 < 300
                   \<and> dec (Body resp2) = Inl err2
                   \<and> y = ErrorfW ''ramaris: failed to decode response: '' err2"
  proof (cases res)
    case (Inl x)
    with out d h have "y = x" "c1 = c'" "s1 = s'" "tr1 = tr" by simp_all
    with d Inl dr have "doRequest e path opts c s = (Inl y, c', s', tr)" by simp
    from doRequest_not_decoding [OF this] h show ?thesis by simp
  next
    case (Inr resp2)
    with d dr have ok: "doRequest e path opts c s = (Inr resp2, c1, s1, tr1)" by simp
    note st = doRequest_success_status [OF ok]
    show ?thesis
    proof (cases "dec (Body resp2)")
      case (Inl err2)
      with out d Inr h st show ?thesis by auto
    next
      case (Inr v)
      with out d \<open>res = Inr resp2\<close> h show ?thesis by simp
    qed
  qed
qed

text \<open>
  C8. In each of the eight endpoint methods, when \<open>doRequest\<close> returns a response and
  the decoder fails on its body with \<open>err\<close>, the method returns
  \<open>fmt.Errorf("ramaris: failed to decode response: %w", err)\<close>. When \<open>doRequest\<close>
  returns an error, the method returns that error unchanged, and it is not a decoding
  error. So a method returns a decoding error only when \<open>doRequest\<close> handed it a 2xx
  response and the decoder refused the body. The decoding error is neither a transport
  error, an \<open>*Error\<close> nor a \<open>*RateLimitError\<close>.
\<close>

theorem decoding_error_distinct:
  "((doRequest e ''/health'' None c s = (Inr resp, c', s', tr) \<and> dec (Body resp) = Inl err
        \<longrightarrow> Health e dec c s
            = (Inl (ErrorfW ''ramaris: failed to decode response: '' err), c', s', tr))
      \<and> (doRequest e ''/health'' None c s = (Inl x, c', s', tr)
        \<longrightarrow> Health e dec c s = (Inl x, c', s', tr) \<and> \<not> isDecodingError x)
      \<and> (Health e dec c s = (Inl y, c', s', tr) \<and> isDecodingError y
        \<longrightarrow> (\<exists>resp2 err2. doRequest e ''/health'' None c s = (Inr resp2, c', s', tr)
               \<and> 200 \<le> StatusCode resp2 \<and> StatusCode resp2 < 300
               \<and> dec (Body resp2) = Inl err2
               \<and> y = ErrorfW ''ramaris: failed to decode response: '' err2)))
   \<and> ((doRequest e ''/strategies'' opts c s = (Inr resp, c', s', tr) \<and> dec (Body resp) = Inl err
        \<longrightarrow> ListStrategies e dec opts c s
            = (Inl (ErrorfW ''ramaris: failed to decode response: '' err), c', s', tr))
      \<and> (doRequest e ''/strategies'' opts c s = (Inl x, c', s', tr)
        \<longrightarrow> ListStrategies e dec opts c s = (Inl x, c', s', tr) \<and> \<not> isDecodingError x)
      \<and> (ListStrategies e dec opts c s = (Inl y, c', s', tr) \<and> isDecodingError y
        \<longrightarrow> (\<exists>resp2 err2. doRequest e ''/strategies'' opts c s = (Inr resp2, c', s', tr)
               \<and> 200 \<le> StatusCode resp2 \<and> StatusCode resp2 < 300
               \<and> dec (Body resp2) = Inl err2
               \<and> y = ErrorfW ''ramaris: failed to decode response: '' err2)))
   \<and> ((doRequest e (''/strategies/'' @ shareID) None c s = (Inr resp, c', s', tr) \<and> decS (Body resp) = Inl err
        \<longrightarrow> GetStrategy e decS shareID c s
            = (Inl (ErrorfW ''ramaris: failed to decode response: '' err), c', s', tr))
      \<and> (doRequest e (''/strategies/'' @ shareID) None c s = (Inl x, c', s', tr)
        \<longrightarrow> GetStrategy e decS shareID c s = (Inl x, c', s', tr) \<and> \<not> isDecodingError x)
      \<and> (GetStrategy e decS shareID c s = (Inl y, c', s', tr) \<and> isDecodingError y
        \<longrightarrow> (\<exists>resp2 err2. doRequest e (''/strategies/'' @ shareID) None c s = (Inr resp2, c', s', tr)
               \<and> 200 \<le> StatusCode resp2 \<and> StatusCode resp2 < 300
               \<and> decS (Body resp2) = Inl err2
               \<and> y = ErrorfW ''ramaris: failed to decode response: '' err2)))
   \<and> ((doRequest e ''/me/strategies/watchlist'' opts c s = (Inr resp, c', s', tr) \<and> dec (Body resp) = Inl err
        \<longrightarrow> ListWatchlist e dec opts c s
            = (Inl (ErrorfW ''ramaris: failed to decode response: '' err), c', s', tr))
      \<and> (doRequest e ''/me/strategies/watchlist'' opts c s = (Inl x, c', s', tr)
        \<longrightarrow> ListWatchlist e dec opts c s = (Inl x, c', s', tr) \<and> \<not> isDecodingError x)
      \<and> (ListWatchlist e dec opts c s = (Inl y, c', s', tr) \<and> isDecodingError y
        \<longrightarrow> (\<exists>resp2 err2. doRequest e ''/me/strategies/watchlist'' opts c s = (Inr resp2, c', s', tr)
               \<and> 200 \<le> StatusCode resp2 \<and> StatusCode resp2 < 300
               \<and> dec (Body resp2) = Inl err2
               \<and> y = ErrorfW ''ramaris: failed to decode response: '' err2)))
   \<and> ((doRequest e ''/wallets'' opts c s = (Inr resp, c', s', tr) \<and> dec (Body resp) = Inl err
        \<longrightarrow> ListWallets e dec opts c s
            = (Inl (ErrorfW ''ramaris: failed to decode response: '' err), c', s', tr))
      \<and> (doRequest e ''/wallets'' opts c s = (Inl x, c', s', tr)
        \<longrightarrow> ListWallets e dec opts c s = (Inl x, c', s', tr) \<and> \<not> isDecodingError x)
      \<and> (ListWallets e dec opts c s = (Inl y, c', s', tr) \<and> isDecodingError y
        \<longrightarrow> (\<exists>resp2 err2. doRequest e ''/wallets'' opts c s = (Inr resp2, c', s', tr)
               \<and> 200 \<le> StatusCode resp2 \<and> StatusCode resp2 < 300
               \<and> dec (Body resp2) = Inl err2
               \<and> y = ErrorfW ''ramaris: failed to decode response: '' err2)))
   \<and> ((doRequest e (''/wallets/'' @ Itoa wid) None c s = (Inr resp, c', s', tr) \<and> decS (Body resp) = Inl err
        \<longrightarrow> GetWallet e decS wid c s
            = (Inl (ErrorfW ''ramaris: failed to decode response: '' err), c', s', tr))
      \<and> (doRequest e (''/wallets/'' @ Itoa wid) None c s = (Inl x, c', s', tr)
        \<longrightarrow> GetWallet e decS wid c s = (Inl x, c', s', tr) \<and> \<not> isDecodingError x)
      \<and> (GetWallet e decS wid c s = (Inl y, c', s', tr) \<and> isDecodingError y
        \<longrightarrow> (\<exists>resp2 err2. doRequest e (''/wallets/'' @ Itoa wid) None c s = (Inr resp2, c', s', tr)
               \<and> 200 \<le> StatusCode resp2 \<and> StatusCode resp2 < 300
               \<and> decS (Body resp2) = Inl err2
               \<and> y = ErrorfW ''ramaris: failed to decode response: '' err2)))
   \<and> ((doRequest e ''/me/profile'' None c s = (Inr resp, c', s', tr) \<and> decS (Body resp) = Inl err
        \<longrightarrow> GetProfile e decS c s
            = (Inl (ErrorfW ''ramaris: failed to decode response: '' err), c', s', tr))
      \<and> (doRequest e ''/me/profile'' None c s = (Inl x, c', s', tr)
        \<longrightarrow> GetProfile e decS c s = (Inl x, c', s', tr) \<and> \<not> isDecodingError x)
      \<and> (GetProfile e decS c s = (Inl y, c', s', tr) \<and> isDecodingError y
        \<longrightarrow> (\<exists>resp2 err2. doRequest e ''/me/profile'' None c s = (Inr resp2, c', s', tr)
               \<and> 200 \<le> StatusCode resp2 \<and> StatusCode resp2 < 300
               \<and> decS (Body resp2) = Inl err2
               \<and> y = ErrorfW ''ramaris: failed to decode response: '' err2)))
   \<and> ((doRequest e ''/me/subscription'' None c s = (Inr resp, c', s', tr) \<and> decS (Body resp) = Inl err
        \<longrightarrow> GetSubscription e decS c s
            = (Inl (ErrorfW ''ramaris: failed to decode response: '' err), c', s', tr))
      \<and> (doRequest e ''/me/subscription'' None c s = (Inl x, c', s', tr)
        \<longrightarrow> GetSubscription e decS c s = (Inl x, c', s', tr) \<and> \<not> isDecodingError x)
      \<and> (GetSubscription e decS c s = (Inl y, c', s', tr) \<and> isDecodingError y
        \<longrightarrow> (\<exists>resp2 err2. doRequest e ''/me/subscription'' None c s = (Inr resp2, c', s', tr)
               \<and> 200 \<le> StatusCode resp2 \<and> StatusCode resp2 < 300
               \<and> decS (Body resp2) = Inl err2
               \<and> y = ErrorfW ''ramaris: failed to decode response: '' err2)))
   \<and> isDecodingError (ErrorfW ''ramaris: failed to decode response: '' err)
   \<and> \<not> isTransportError (ErrorfW ''ramaris: failed to decode response: '' err)
   \<and> \<not> isApiError (ErrorfW ''ramaris: failed to decode response: '' err)
   \<and> \<not> isRateLimitError (ErrorfW ''ramaris: failed to decode response: '' err)
   \<and> (doRequest e path opts c s = (Inl x, c', s', tr) \<longrightarrow> \<not> isDecodingError x)"
proof -
  note op1 = endpoint_errors [where out = "Health e dec c s" and dec = dec
      and f = "\<lambda>v. v" and resp = resp and c' = c' and s' = s' and tr = tr and err = err
      and x = x and y = y, OF _ refl [of "doRequest e ''/health'' None c s"],
      unfolded Health_def [symmetric], OF refl]
  note op2 = endpoint_errors [where out = "ListStrategies e dec opts c s" and dec = dec
      and f = "\<lambda>v. v" and resp = resp and c' = c' and s' = s' and tr = tr and err = err
      and x = x and y = y, OF _ refl [of "doRequest e ''/strategies'' opts c s"],
      unfolded ListStrategies_def [symmetric], OF refl]
  note op3 = endpoint_errors [where out = "GetStrategy e decS shareID c s" and dec = decS
      and f = "Data" and resp = resp and c' = c' and s' = s' and tr = tr and err = err
      and x = x and y = y, OF _ refl [of "doRequest e (''/strategies/'' @ shareID) None c s"],
      unfolded GetStrategy_def [symmetric], OF refl]
  note op4 = endpoint_errors [where out = "ListWatchlist e dec opts c s" and dec = dec
      and f = "\<lambda>v. v" and resp = resp and c' = c' and s' = s' and tr = tr and err = err
      and x = x and y = y, OF _ refl [of "doRequest e ''/me/strategies/watchlist'' opts c s"],
      unfolded ListWatchlist_def [symmetric], OF refl]
  note op5 = endpoint_errors [where out = "ListWallets e dec opts c s" and dec = dec
      and f = "\<lambda>v. v" and resp = resp and c' = c' and s' = s' and tr = tr and err = err
      and x = x and y = y, OF _ refl [of "doRequest e ''/wallets'' opts c s"],
      unfolded ListWallets_def [symmetric], OF refl]
  note op6 = endpoint_errors [where out = "GetWallet e decS wid c s" and dec = decS
      and f = "Data" and resp = resp and c' = c' and s' = s' and tr = tr and err = err
      and x = x and y = y, OF _ refl [of "doRequest e (''/wallets/'' @ Itoa wid) None c s"],
      unfolded GetWallet_def [symmetric], OF refl]
  note op7 = endpoint_errors [where out = "GetProfile e decS c s" and dec = decS
      and f = "Data" and resp = resp and c' = c' and s' = s' and tr = tr and err = err
      and x = x and y = y, OF _ refl [of "doRequest e ''/me/profile'' None c s"],
      unfolded GetProfile_def [symmetric], OF refl]
  note op8 = endpoint_errors [where out = "GetSubscription e decS c s" and dec = decS
      and f = "Data" and resp = resp and c' = c' and s' = s' and tr = tr and err = err
      and x = x and y = y, OF _ refl [of "doRequest e ''/me/subscription'' None c s"],
      unfolded GetSubscription_def [symmetric], OF refl]
  have rest: "isDecodingError (ErrorfW ''ramaris: failed to decode response: '' err)
      \<and> \<not> isTransportError (ErrorfW ''ramaris: failed to decode response: '' err)
      \<and> \<not> isApiError (ErrorfW ''ramaris: failed to decode response: '' err)
      \<and> \<not> isRateLimitError (ErrorfW ''ramaris: failed to decode response: '' err)
      \<and> (doRequest e path opts c s = (Inl x, c', s', tr) \<longrightarrow> \<not> isDecodingError x)"
    using doRequest_not_decoding by auto
  show ?thesis
    by (rule conjI [OF op1 conjI [OF op2 conjI [OF op3 conjI [OF op4 conjI [OF op5
          conjI [OF op6 conjI [OF op7 conjI [OF op8 rest]]]]]]]])
qed

lemma doRequest_dead:
  "doRequest calm ''/health'' None newClient emptyStore
     = (Inl (ErrorfW ''ramaris: request failed: '' (Foreign ''connection refused'')),
        newClient, emptyStore, [Do])"
  by (simp add: doRequest_def buildURL_def doRequestLoop.simps maxRetries_def example_defs
      newClient_def deadTransport_def)

lemma doRequest_garbled:
  "doRequest calm path None (clientOver garbled) emptyStore
     = (Inr \<lparr>StatusCode = 200, Header = noHeaders, Body = ''<html>maintenance</html>''\<rparr>,
        clientOver garbled, emptyStore, [Do])"
  by (simp add: doRequest_def buildURL_def doRequestLoop.simps maxRetries_def example_defs
      garbled_def)

theorem decoding_error_distinct_witness:
  "Health calm sampleDecode (clientOver garbled) emptyStore
     = (Inl (ErrorfW ''ramaris: failed to decode response: ''
               (Foreign ''invalid character in response'')),
        clientOver garbled, emptyStore, [Do])
   \<and> GetStrategy calm sampleDecodeSingle ''abc123'' (clientOver garbled) emptyStore
     = (Inl (ErrorfW ''ramaris: failed to decode response: ''
               (Foreign ''invalid character in response'')),
        clientOver garbled, emptyStore, [Do])
   \<and> Health calm sampleDecode newClient emptyStore
     = (Inl (ErrorfW ''ramaris: request failed: '' (Foreign ''connection refused'')),
        newClient, emptyStore, [Do])
   \<and> \<not> isDecodingError (ErrorfW ''ramaris: request failed: '' (Foreign ''connection refused''))"
proof -
  note garbledCase =
    decoding_error_distinct [where e = calm and c = "clientOver garbled" and s = emptyStore
      and resp = "\<lparr>StatusCode = 200, Header = noHeaders, Body = ''<html>maintenance</html>''\<rparr>"
      and c' = "clientOver garbled" and s' = emptyStore and tr = "[Do]"
      and dec = sampleDecode and decS = sampleDecodeSingle and shareID = "''abc123''"
      and err = "Foreign ''invalid character in response''"]
  note deadCase =
    decoding_error_distinct [where e = calm and c = newClient and s = emptyStore
      and dec = sampleDecode
      and x = "ErrorfW ''ramaris: request failed: '' (Foreign ''connection refused'')"
      and c' = newClient and s' = emptyStore and tr = "[Do]"]
  have "Health calm sampleDecode (clientOver garbled) emptyStore
     = (Inl (ErrorfW ''ramaris: failed to decode response: ''
               (Foreign ''invalid character in response'')),
        clientOver garbled, emptyStore, [Do])"
    using garbledCase [THEN conjunct1, THEN conjunct1] doRequest_garbled [of "''/health''"]
    by (simp add: sampleDecode_def okBody_def)
  moreover have "GetStrategy calm sampleDecodeSingle ''abc123'' (clientOver garbled) emptyStore
     = (Inl (ErrorfW ''ramaris: failed to decode response: ''
               (Foreign ''invalid character in response'')),
        clientOver garbled, emptyStore, [Do])"
    using garbledCase [THEN conjunct2, THEN conjunct2, THEN conjunct1, THEN conjunct1]
      doRequest_garbled [of "''/strategies/'' @ ''abc123''"]
    by (simp add: sampleDecodeSingle_def okBody_def)
  moreover have "Health calm sampleDecode newClient emptyStore
     = (Inl (ErrorfW ''ramaris: request failed: '' (Foreign ''connection refused'')),
        newClient, emptyStore, [Do])
   \<and> \<not> isDecodingError (ErrorfW ''ramaris: request failed: '' (Foreign ''connection refused''))"
    using deadCase [THEN conjunct1, THEN conjunct2, THEN conjunct1] doRequest_dead
    by simp
  ultimately show ?thesis by simp
qed

end
